theory Spec2Isabelle
  imports Main "HOL-Library.Word"
begin

section \<open>Data model of the channel bootstrap\<close>

text \<open>
  The development embeds \<^verbatim>\<open>source/channel_bootstrap.c\<close>. The bootstrap is event driven:
  the resolver, the sockets, the event loop, the channel and the TLS handler call back into
  static functions of the file, and each of those mutates one connection state and calls
  out again (to the user's callbacks, the resolver, the socket and channel API). Every
  callback of the file is a function on a world: the connection state of the C struct,
  extended by the trace of the calls the code made, in the order it made them. What a
  collaborator answers (an allocation that fails, the value of \<^verbatim>\<open>aws_last_error()\<close>) is an
  explicit argument of the function.

  A pointer is an \<open>option\<close> of an identity, \<open>None\<close> being \<^verbatim>\<open>NULL\<close>; where the file
  computes with a pointer (\<^verbatim>\<open>AWS_CONTAINER_OF\<close> on the listener of a server state) it is
  a 64-bit address. Error codes are C
  \<^verbatim>\<open>int\<close>s and are never computed with, so they are \<open>int\<close>; \<^verbatim>\<open>if (error_code)\<close> is
  \<open>error_code \<noteq> 0\<close>. \<^verbatim>\<open>AWS_ASSERT\<close> is a debug-build check that the release build compiles
  out; the functions below follow the release build (the source guards the same conditions
  with an \<^verbatim>\<open>if\<close> where it matters), and an asserted condition is a hypothesis of a theorem
  where the theorem needs it. \<^verbatim>\<open>AWS_FATAL_ASSERT\<close> aborts in every build and is a result of
  its own.
\<close>

type_synonym aws_channel = nat
type_synonym aws_socket = nat
type_synonym fn_ptr = nat

text \<open>
  Modelled from the spec: the enumerations of \<^verbatim>\<open>aws/io/socket.h\<close>,
  \<^verbatim>\<open>aws/common/task_scheduler.h\<close> and \<^verbatim>\<open>aws/io/host_resolver.h\<close>, which are not part of
  the sources at hand. The spec names the socket domains (IPv4, IPv6, Local), the socket
  types (Stream, Datagram), the task statuses (RunReady, Cancelled) and the record types
  (A, AAAA).
\<close>

datatype aws_socket_domain = AWS_SOCKET_IPV4 | AWS_SOCKET_IPV6 | AWS_SOCKET_LOCAL

datatype aws_socket_type = AWS_SOCKET_STREAM | AWS_SOCKET_DGRAM

datatype aws_task_status = AWS_TASK_STATUS_RUN_READY | AWS_TASK_STATUS_CANCELED

datatype aws_address_record_type = AWS_ADDRESS_RECORD_TYPE_A | AWS_ADDRESS_RECORD_TYPE_AAAA

record aws_socket_options =
  domain :: aws_socket_domain
  type :: aws_socket_type

record aws_host_address =
  host :: "string option"
  address :: string
  record_type :: aws_address_record_type

text \<open>
  Modelled from the spec: the error constants of \<^verbatim>\<open>aws/common/error.h\<close> and
  \<^verbatim>\<open>aws/io/io.h\<close>, which are not part of the sources at hand. The spec calls them Unknown
  (the substitute for a zero error code) and InvalidOptions. No theorem depends on the
  numbers chosen here.
\<close>

definition AWS_ERROR_UNKNOWN :: int where
  "AWS_ERROR_UNKNOWN = 2"

definition AWS_IO_SOCKET_INVALID_OPTIONS :: int where
  "AWS_IO_SOCKET_INVALID_OPTIONS = 1053"

text \<open>
  The result of an \<^verbatim>\<open>int\<close>-returning API function: \<^verbatim>\<open>AWS_OP_SUCCESS\<close>, or \<^verbatim>\<open>AWS_OP_ERR\<close>
  together with the error that \<^verbatim>\<open>aws_last_error()\<close> reports afterwards.
\<close>

datatype op_result = AWS_OP_SUCCESS | AWS_OP_ERR int

text \<open>
  \<^verbatim>\<open>struct connection_task_data\<close>: one per resolved address. \<open>task\<close> is the identity
  of the embedded \<^verbatim>\<open>aws_task\<close> (the index of the address); the \<^verbatim>\<open>args\<close> pointer is the
  world the task runs in.
\<close>

record connection_task_data =
  task :: nat
  endpoint_address :: string
  endpoint_port :: "16 word"
  options :: aws_socket_options
  host_address :: aws_host_address
  connect_loop :: nat

datatype handler_kind = Socket_handler | Tls_handler | Alpn_handler

text \<open>
  The calls the bootstrap makes, as they appear in the trace. A call that fails (an
  allocation that returns \<^verbatim>\<open>NULL\<close>, an operation that returns \<^verbatim>\<open>AWS_OP_ERR\<close>) leaves no
  event: its failure is an argument of the function that makes the call.
\<close>

datatype event =
    Setup_callback int "aws_channel option"
  | Shutdown_callback int "aws_channel option"
  | User_on_negotiation_result int
  | Incoming_callback int "aws_channel option"
  | Server_shutdown_callback int "aws_channel option"
  | Destroy_callback
  | Record_connection_failure aws_host_address
  | Resolve_host string
  | Socket_init aws_socket
  | Socket_connect aws_socket string
  | Socket_close "aws_socket option"
  | Socket_clean_up "aws_socket option"
  | Release_socket "aws_socket option"
  | Listener_init
  | Listener_bind
  | Listener_listen nat
  | Listener_start_accept nat
  | Listener_stop_accept
  | Listener_clean_up
  | Channel_new aws_channel
  | Channel_shutdown "aws_channel option" int
  | Channel_destroy "aws_channel option"
  | Slot_new handler_kind
  | Slot_discard handler_kind
  | Handler_new handler_kind
  | Slot_insert handler_kind
  | Slot_set_handler handler_kind
  | Tls_start_negotiation
  | Tls_options_copy
  | Tls_options_clean_up
  | String_new
  | String_destroy
  | Bootstrap_acquire
  | Bootstrap_release
  | Acquire_args
  | Release_args
  | Acquire_task_data nat
  | Host_address_copy nat
  | Host_address_clean_up nat
  | Release_task_data nat
  | Schedule_task connection_task_data
  | Acquire_channel_data
  | Release_channel_data
  | Schedule_listener_destroy_task nat "64 word"

subsection \<open>Client connection state\<close>

record client_channel_data =
  channel :: "aws_channel option"
  socket :: "aws_socket option"
  on_protocol_negotiated :: "fn_ptr option"
  user_on_negotiation_result :: "fn_ptr option"
  use_tls :: bool

record client_connection_args =
  shutdown_callback :: "fn_ptr option"
  channel_data :: client_channel_data
  outgoing_options :: aws_socket_options
  outgoing_port :: "16 word"
  host_name :: "string option"
  addresses_count :: "8 word"
  failed_count :: "8 word"
  connection_chosen :: bool
  setup_called :: bool
  ref_count :: "32 word"

record client_world = client_connection_args +
  trace :: "event list"

definition emit :: "event \<Rightarrow> client_world \<Rightarrow> client_world" where
  "emit e w = w\<lparr>trace := trace w @ [e]\<rparr>"

definition emits :: "event list \<Rightarrow> client_world \<Rightarrow> client_world" where
  "emits es w = w\<lparr>trace := trace w @ es\<rparr>"

section \<open>Client bootstrap\<close>

definition s_client_connection_args_acquire :: "client_world \<Rightarrow> client_world" where
  "s_client_connection_args_acquire w =
     (let w1 = w\<lparr>ref_count := ref_count w + 1\<rparr>
      in if ref_count w = 0 then emit Bootstrap_acquire w1 else w1)"

definition s_client_connection_args_release :: "client_world \<Rightarrow> client_world" where
  "s_client_connection_args_release w =
     (let w1 = w\<lparr>ref_count := ref_count w - 1\<rparr>
      in if ref_count w1 = 0 then
           emits ([Bootstrap_release]
                  @ (if host_name w1 \<noteq> None then [String_destroy] else [])
                  @ (if use_tls (channel_data w1) then [Tls_options_clean_up] else [])
                  @ [Release_args]) w1
         else w1)"

definition s_connection_args_setup_callback ::
  "client_world \<Rightarrow> int \<Rightarrow> aws_channel option \<Rightarrow> client_world" where
  "s_connection_args_setup_callback w error_code chan =
     (if \<not> setup_called w then
        let w1 = emit (Setup_callback error_code chan) w;
            w2 = w1\<lparr>setup_called := True\<rparr>;
            w3 = (if error_code \<noteq> 0 then w2\<lparr>shutdown_callback := None\<rparr> else w2)
        in s_client_connection_args_release w3
      else w)"

definition s_connection_args_shutdown_callback ::
  "client_world \<Rightarrow> int \<Rightarrow> aws_channel option \<Rightarrow> client_world" where
  "s_connection_args_shutdown_callback w error_code chan =
     (if \<not> setup_called w then
        s_connection_args_setup_callback w
          (if error_code \<noteq> 0 then error_code else AWS_ERROR_UNKNOWN) None
      else if shutdown_callback w \<noteq> None then emit (Shutdown_callback error_code chan) w
      else w)"

text \<open>
  \<^verbatim>\<open>s_tls_client_on_negotiation_result\<close>: \<open>slot_channel\<close> is \<^verbatim>\<open>slot->channel\<close> of the TLS
  handler's slot.
\<close>

definition s_tls_client_on_negotiation_result ::
  "client_world \<Rightarrow> aws_channel option \<Rightarrow> int \<Rightarrow> client_world" where
  "s_tls_client_on_negotiation_result w slot_channel err_code =
     (let w1 = (if user_on_negotiation_result (channel_data w) \<noteq> None
                then emit (User_on_negotiation_result err_code) w else w)
      in if err_code \<noteq> 0 then emit (Channel_shutdown slot_channel err_code) w1
         else s_connection_args_setup_callback w1 0 (channel (channel_data w1)))"

text \<open>
  What the channel and TLS API answer while \<^verbatim>\<open>s_setup_client_tls\<close> runs: whether each
  slot and handler allocation, each \<^verbatim>\<open>aws_channel_slot_set_handler\<close> and the start of the
  negotiation succeed.
\<close>

record tls_setup_env =
  tls_slot_ok :: bool
  tls_handler_ok :: bool
  tls_set_handler_ok :: bool
  alpn_slot_ok :: bool
  alpn_handler_ok :: bool
  alpn_set_handler_ok :: bool
  start_negotiation_ok :: bool

text \<open>The ALPN block of \<^verbatim>\<open>s_setup_client_tls\<close>; \<open>False\<close> is \<^verbatim>\<open>AWS_OP_ERR\<close>.\<close>

definition s_setup_client_tls_alpn :: "client_world \<Rightarrow> tls_setup_env \<Rightarrow> bool \<times> client_world" where
  "s_setup_client_tls_alpn w env =
     (if \<not> alpn_slot_ok env then (False, w)
      else let w1 = emit (Slot_new Alpn_handler) w
      in if \<not> alpn_handler_ok env then (False, emit (Slot_discard Alpn_handler) w1)
      else let w2 = emits [Handler_new Alpn_handler, Slot_insert Alpn_handler] w1
      in if \<not> alpn_set_handler_ok env then (False, w2)
      else (True, emit (Slot_set_handler Alpn_handler) w2))"

definition s_setup_client_tls :: "client_world \<Rightarrow> tls_setup_env \<Rightarrow> bool \<times> client_world" where
  "s_setup_client_tls w env =
     (if \<not> tls_slot_ok env then (False, w)
      else let w1 = emit (Slot_new Tls_handler) w
      in if \<not> tls_handler_ok env then (False, emit (Slot_discard Tls_handler) w1)
      else let w2 = emits [Handler_new Tls_handler, Slot_insert Tls_handler] w1
      in if \<not> tls_set_handler_ok env then (False, w2)
      else let w3 = emit (Slot_set_handler Tls_handler) w2;
               (ok, w4) = (if on_protocol_negotiated (channel_data w3) \<noteq> None
                           then s_setup_client_tls_alpn w3 env else (True, w3))
      in if \<not> ok then (False, w4)
      else if \<not> start_negotiation_ok env then (False, w4)
      else (True, emit Tls_start_negotiation w4))"

text \<open>
  What the channel API answers while \<^verbatim>\<open>s_on_client_channel_on_setup_completed\<close> (and its
  server twin) installs the socket handler.
\<close>

record channel_setup_env =
  socket_slot_ok :: bool
  socket_handler_ok :: bool
  socket_set_handler_ok :: bool
  tls_env :: tls_setup_env

definition s_on_client_channel_on_setup_completed ::
  "client_world \<Rightarrow> aws_channel option \<Rightarrow> int \<Rightarrow> channel_setup_env \<Rightarrow> int \<Rightarrow> client_world" where
  "s_on_client_channel_on_setup_completed w chan error_code env last_error =
     (if error_code = 0 then
        (if \<not> socket_slot_ok env then emit (Channel_shutdown chan last_error) w
         else let w1 = emit (Slot_new Socket_handler) w
         in if \<not> socket_handler_ok env then
              emit (Channel_shutdown chan last_error) (emit (Slot_discard Socket_handler) w1)
         else let w2 = emit (Handler_new Socket_handler) w1
         in if \<not> socket_set_handler_ok env then emit (Channel_shutdown chan last_error) w2
         else let w3 = emit (Slot_set_handler Socket_handler) w2
         in if use_tls (channel_data w3) then
              (case s_setup_client_tls w3 (tls_env env) of
                 (True, w4) \<Rightarrow> w4
               | (False, w4) \<Rightarrow> emit (Channel_shutdown chan last_error) w4)
            else s_connection_args_setup_callback w3 0 chan)
      else emit (Channel_shutdown chan error_code) w)"

definition s_on_client_channel_on_shutdown ::
  "client_world \<Rightarrow> aws_channel option \<Rightarrow> int \<Rightarrow> client_world" where
  "s_on_client_channel_on_shutdown w chan error_code =
     (let w1 = s_connection_args_shutdown_callback w error_code chan;
          w2 = emits [Channel_destroy chan,
                      Socket_clean_up (socket (channel_data w1)),
                      Release_socket (socket (channel_data w1))] w1
      in s_client_connection_args_release w2)"

text \<open>
  \<^verbatim>\<open>s_on_client_connection_established\<close>. \<open>sock\<close> is the socket that reports,
  \<open>remote_address\<close> its \<^verbatim>\<open>remote_endpoint.address\<close>; \<open>address_ok\<close> says whether
  \<^verbatim>\<open>aws_string_new_from_c_str\<close> returns a string, \<open>new_channel\<close> is what \<^verbatim>\<open>aws_channel_new\<close>
  returns.
\<close>

definition s_on_client_connection_established ::
  "client_world \<Rightarrow> aws_socket \<Rightarrow> string \<Rightarrow> int \<Rightarrow> bool \<Rightarrow> aws_channel option \<Rightarrow> client_world" where
  "s_on_client_connection_established w sock remote_address error_code address_ok new_channel =
     (let w1 = (if error_code \<noteq> 0 then w\<lparr>failed_count := failed_count w + 1\<rparr> else w)
      in if error_code \<noteq> 0 \<or> connection_chosen w1 then
           let w2 = (if domain (outgoing_options w1) \<noteq> AWS_SOCKET_LOCAL \<and> error_code \<noteq> 0
                        \<and> address_ok
                     then emit (Record_connection_failure
                                  \<lparr>host = host_name w1, address = remote_address,
                                   record_type =
                                     (if domain (outgoing_options w1) = AWS_SOCKET_IPV6
                                      then AWS_ADDRESS_RECORD_TYPE_AAAA
                                      else AWS_ADDRESS_RECORD_TYPE_A)\<rparr>) w1
                     else w1);
               w3 = emits [Socket_close (Some sock), Socket_clean_up (Some sock),
                           Release_socket (Some sock)] w2;
               w4 = (if failed_count w3 = addresses_count w3
                     then s_connection_args_setup_callback w3 error_code None else w3)
           in s_client_connection_args_release w4
         else
           let w2 = w1\<lparr>connection_chosen := True,
                       channel_data := (channel_data w1)\<lparr>socket := Some sock\<rparr>\<rparr>;
               w3 = w2\<lparr>channel_data := (channel_data w2)\<lparr>channel := new_channel\<rparr>\<rparr>
           in case new_channel of
                Some c \<Rightarrow> emit (Channel_new c) w3
              | None \<Rightarrow>
                  let w4 = emits [Socket_clean_up (Some sock),
                                  Release_socket (socket (channel_data w3))] w3;
                      w5 = w4\<lparr>failed_count := failed_count w4 + 1\<rparr>
                  in if failed_count w5 = addresses_count w5
                     then s_connection_args_setup_callback w5 error_code None else w5)"

text \<open>
  \<^verbatim>\<open>s_attempt_connection\<close>. \<open>sock\<close> is the socket the task allocates; \<open>outcome\<close> says
  how far the task gets before a call fails.
\<close>

datatype connect_outcome =
  Socket_alloc_failed | Socket_init_failed | Socket_connect_failed | Socket_connect_started

text \<open>The labels \<^verbatim>\<open>task_cancelled:\<close> and \<^verbatim>\<open>cleanup_task:\<close> of \<^verbatim>\<open>s_attempt_connection\<close>.\<close>

definition attempt_cleanup_task :: "connection_task_data \<Rightarrow> client_world \<Rightarrow> client_world" where
  "attempt_cleanup_task td w =
     emits [Host_address_clean_up (task td), Release_task_data (task td)] w"

definition attempt_task_cancelled ::
  "connection_task_data \<Rightarrow> int \<Rightarrow> client_world \<Rightarrow> client_world" where
  "attempt_task_cancelled td err_code w =
     (let w1 = w\<lparr>failed_count := failed_count w + 1\<rparr>;
          w2 = (if failed_count w1 = addresses_count w1
                then s_connection_args_setup_callback w1 err_code None else w1)
      in attempt_cleanup_task td (s_client_connection_args_release w2))"

definition s_attempt_connection ::
  "client_world \<Rightarrow> connection_task_data \<Rightarrow> aws_task_status \<Rightarrow> aws_socket \<Rightarrow> connect_outcome
     \<Rightarrow> int \<Rightarrow> client_world" where
  "s_attempt_connection w td status sock outcome last_error =
     (if status \<noteq> AWS_TASK_STATUS_RUN_READY then attempt_task_cancelled td 0 w
      else case outcome of
        Socket_alloc_failed \<Rightarrow> attempt_task_cancelled td last_error w
      | Socket_init_failed \<Rightarrow>
          attempt_task_cancelled td last_error (emit (Release_socket (Some sock)) w)
      | Socket_connect_failed \<Rightarrow>
          attempt_task_cancelled td last_error
            (emits [Socket_init sock, Record_connection_failure (host_address td),
                    Socket_clean_up (Some sock), Release_socket (Some sock)] w)
      | Socket_connect_started \<Rightarrow>
          attempt_cleanup_task td
            (emits [Socket_init sock, Socket_connect sock (endpoint_address td)] w))"

subsection \<open>Host resolution\<close>

text \<open>
  What happens to the task structure of one address in the allocation loop of
  \<^verbatim>\<open>s_on_host_resolved\<close>: \<^verbatim>\<open>aws_mem_calloc\<close> returns \<^verbatim>\<open>NULL\<close>, or the structure exists
  and \<^verbatim>\<open>aws_host_address_copy\<close> fails, or both calls succeed.
\<close>

datatype alloc_result = Calloc_failed | Copy_failed | Alloc_ok

datatype fatal = Fatal_assert_failed

definition new_task_data ::
  "client_world \<Rightarrow> nat \<Rightarrow> nat \<Rightarrow> aws_host_address \<Rightarrow> connection_task_data" where
  "new_task_data w loop i h =
     \<lparr>task = i, endpoint_address = address h, endpoint_port = outgoing_port w,
      options = (outgoing_options w)\<lparr>domain :=
                  (if record_type h = AWS_ADDRESS_RECORD_TYPE_AAAA
                   then AWS_SOCKET_IPV6 else AWS_SOCKET_IPV4)\<rparr>,
      host_address = h, connect_loop = loop\<rparr>"

text \<open>The inner loop \<^verbatim>\<open>for (j = 0; j <= i; ++j) if (tasks[j]) ...\<close> over \<^verbatim>\<open>tasks[0..i]\<close>.\<close>

fun free_tasks :: "connection_task_data option list \<Rightarrow> client_world \<Rightarrow> client_world" where
  "free_tasks [] w = w"
| "free_tasks (None # ts) w = free_tasks ts w"
| "free_tasks (Some td # ts) w =
     free_tasks ts (emits [Host_address_clean_up (task td), Release_task_data (task td)] w)"

text \<open>
  The allocation loop, from index \<open>i\<close> on, \<open>tasks\<close> being \<^verbatim>\<open>tasks[0..i-1]\<close>: the task
  structures when every allocation succeeds, \<open>None\<close> after the clean-up of a failure.
\<close>

fun allocate_tasks ::
  "(nat \<Rightarrow> alloc_result) \<Rightarrow> nat \<Rightarrow> nat \<Rightarrow> aws_host_address list
     \<Rightarrow> connection_task_data option list \<Rightarrow> client_world
     \<Rightarrow> connection_task_data list option \<times> client_world" where
  "allocate_tasks alloc loop i [] tasks w = (Some (map the tasks), w)"
| "allocate_tasks alloc loop i (h # hs) tasks w =
     (case alloc i of
        Calloc_failed \<Rightarrow> (None, free_tasks (tasks @ [None]) w)
      | Copy_failed \<Rightarrow>
          (None, free_tasks (tasks @ [Some (new_task_data w loop i h)])
                   (emit (Acquire_task_data i) w))
      | Alloc_ok \<Rightarrow>
          allocate_tasks alloc loop (Suc i) hs (tasks @ [Some (new_task_data w loop i h)])
            (emits [Acquire_task_data i, Host_address_copy i] w))"

text \<open>The scheduling loop.\<close>

fun schedule_tasks :: "connection_task_data list \<Rightarrow> client_world \<Rightarrow> client_world" where
  "schedule_tasks [] w = w"
| "schedule_tasks (td # tds) w =
     schedule_tasks tds (emit (Schedule_task td) (s_client_connection_args_acquire w))"

text \<open>
  \<^verbatim>\<open>s_on_host_resolved\<close>. \<open>loop\<close> is the event loop \<^verbatim>\<open>aws_event_loop_group_get_next_loop\<close>
  returns, \<open>alloc\<close> the fate of each allocation, \<open>last_error\<close> what \<^verbatim>\<open>aws_last_error()\<close>
  returns after a failed allocation. The cast \<^verbatim>\<open>(uint8_t)host_addresses_len\<close> is
  \<open>of_nat\<close> into \<open>8 word\<close>.
\<close>

definition s_on_host_resolved ::
  "client_world \<Rightarrow> int \<Rightarrow> aws_host_address list \<Rightarrow> nat \<Rightarrow> (nat \<Rightarrow> alloc_result) \<Rightarrow> int
     \<Rightarrow> fatal + client_world" where
  "s_on_host_resolved w err_code host_addresses loop alloc last_error =
     (if err_code \<noteq> 0 then Inr (s_connection_args_setup_callback w err_code None)
      else if \<not> (length host_addresses > 0) then Inl Fatal_assert_failed
      else
        let w1 = w\<lparr>addresses_count := of_nat (length host_addresses)\<rparr>
        in case allocate_tasks alloc loop 0 host_addresses [] w1 of
             (None, w2) \<Rightarrow> Inr (s_connection_args_setup_callback w2 last_error None)
           | (Some tasks, w2) \<Rightarrow> Inr (schedule_tasks tasks w2))"

subsection \<open>Starting a client channel\<close>

text \<open>
  \<^verbatim>\<open>struct aws_tls_connection_options\<close> as far as the bootstrap reads it: the user's
  negotiation-result callback (the data-read and error callbacks are wrapped the same way
  and take no part in the setup and shutdown contract).
\<close>

record aws_tls_connection_options =
  on_negotiation_result :: "fn_ptr option"

text \<open>What the collaborators answer while \<^verbatim>\<open>s_new_client_channel\<close> runs.\<close>

record new_channel_env =
  args_alloc_ok :: bool
  tls_options_copy_ok :: bool
  host_name_alloc_ok :: bool
  resolve_host_ok :: bool
  socket_alloc_ok :: bool
  socket_init_ok :: bool
  socket_connect_ok :: bool
  new_socket :: aws_socket
  raised_error :: int

text \<open>
  \<^verbatim>\<open>s_new_client_channel\<close>. \<open>alpn\<close> is the bootstrap's \<^verbatim>\<open>on_protocol_negotiated\<close>. The
  world of the result is \<open>None\<close> when no connection state was allocated.
\<close>

definition s_new_client_channel ::
  "fn_ptr option \<Rightarrow> string \<Rightarrow> 16 word \<Rightarrow> aws_socket_options
     \<Rightarrow> aws_tls_connection_options option \<Rightarrow> fn_ptr option \<Rightarrow> new_channel_env
     \<Rightarrow> op_result \<times> client_world option" where
  "s_new_client_channel alpn hostname port opts connection_options shutdown_cb env =
     (if \<not> args_alloc_ok env then (AWS_OP_ERR (raised_error env), None)
      else
        let w0 = \<lparr>shutdown_callback = None,
                  channel_data = \<lparr>channel = None, socket = None, on_protocol_negotiated = None,
                                  user_on_negotiation_result = None, use_tls = False\<rparr>,
                  outgoing_options = opts, outgoing_port = 0, host_name = None,
                  addresses_count = 0, failed_count = 0, connection_chosen = False,
                  setup_called = False, ref_count = 0, trace = [Acquire_args]\<rparr>;
            w1 = (s_client_connection_args_acquire w0)
                   \<lparr>shutdown_callback := shutdown_cb, outgoing_options := opts,
                    outgoing_port := port\<rparr>;
            fail = (\<lambda>w. (AWS_OP_ERR (raised_error env), Some (s_client_connection_args_release w)))
        in if connection_options \<noteq> None \<and> \<not> tls_options_copy_ok env then fail w1
        else
          let w2 = (case connection_options of
                      None \<Rightarrow> w1
                    | Some co \<Rightarrow>
                        (emit Tls_options_copy w1)
                          \<lparr>channel_data := (channel_data w1)
                             \<lparr>use_tls := True, on_protocol_negotiated := alpn,
                              user_on_negotiation_result := on_negotiation_result co\<rparr>\<rparr>)
          in if domain opts \<noteq> AWS_SOCKET_LOCAL then
               (if \<not> host_name_alloc_ok env then fail w2
                else
                  let w3 = (emit String_new w2)\<lparr>host_name := Some hostname\<rparr>
                  in if \<not> resolve_host_ok env then fail w3
                     else (AWS_OP_SUCCESS, Some (emit (Resolve_host hostname) w3)))
             else
               (if \<not> socket_alloc_ok env then fail w2
                else if \<not> socket_init_ok env then
                  fail (emit (Release_socket (Some (new_socket env))) w2)
                else
                  let w3 = (emit (Socket_init (new_socket env)) w2)\<lparr>addresses_count := 1\<rparr>;
                      w4 = s_client_connection_args_acquire w3
                  in if \<not> socket_connect_ok env then
                       fail (s_client_connection_args_release
                               (emits [Socket_clean_up (Some (new_socket env)),
                                       Release_socket (Some (new_socket env))] w4))
                     else (AWS_OP_SUCCESS,
                           Some (emit (Socket_connect (new_socket env) hostname) w4))))"

text \<open>
  The two entry points. \<open>library_initialized\<close> is what
  \<^verbatim>\<open>aws_io_fatal_assert_library_initialized\<close> checks.
\<close>

definition aws_client_bootstrap_new_tls_socket_channel ::
  "bool \<Rightarrow> fn_ptr option \<Rightarrow> string \<Rightarrow> 16 word \<Rightarrow> aws_socket_options
     \<Rightarrow> aws_tls_connection_options \<Rightarrow> fn_ptr option \<Rightarrow> new_channel_env
     \<Rightarrow> fatal + op_result \<times> client_world option" where
  "aws_client_bootstrap_new_tls_socket_channel library_initialized alpn hostname port opts
       connection_options shutdown_cb env =
     (if \<not> library_initialized then Inl Fatal_assert_failed
      else if type opts \<noteq> AWS_SOCKET_STREAM
      then Inr (AWS_OP_ERR AWS_IO_SOCKET_INVALID_OPTIONS, None)
      else Inr (s_new_client_channel alpn hostname port opts (Some connection_options)
                  shutdown_cb env))"

definition aws_client_bootstrap_new_socket_channel ::
  "fn_ptr option \<Rightarrow> string \<Rightarrow> 16 word \<Rightarrow> aws_socket_options \<Rightarrow> fn_ptr option
     \<Rightarrow> new_channel_env \<Rightarrow> op_result \<times> client_world option" where
  "aws_client_bootstrap_new_socket_channel alpn hostname port opts shutdown_cb env =
     s_new_client_channel alpn hostname port opts None shutdown_cb env"

section \<open>Observing a callback\<close>

text \<open>
  The calls a callback made: the part of the trace it appended. \<open>is_setup\<close> and
  \<open>is_shutdown\<close> pick the invocations of the user's client callbacks.
\<close>

definition emitted :: "client_world \<Rightarrow> client_world \<Rightarrow> event list" where
  "emitted w w' = drop (length (trace w)) (trace w')"

fun is_setup :: "event \<Rightarrow> bool" where
  "is_setup (Setup_callback e c) = True"
| "is_setup _ = False"

fun is_shutdown :: "event \<Rightarrow> bool" where
  "is_shutdown (Shutdown_callback e c) = True"
| "is_shutdown _ = False"

section \<open>Server bootstrap\<close>

text \<open>
  \<^verbatim>\<open>struct server_connection_args\<close> (one per listener) and \<^verbatim>\<open>struct server_channel_data\<close>
  (one per accepted connection). Their fields carry a prefix where the client structs have
  a field of the same name. The reference count is an atomic \<^verbatim>\<open>size_t\<close>, 64 bits wide on
  the LP64 targets of the library: a 64-bit word, so that \<^verbatim>\<open>aws_atomic_fetch_add\<close> and
  \<^verbatim>\<open>aws_atomic_fetch_sub\<close> wrap around at \<^verbatim>\<open>SIZE_MAX\<close> as they do on the machine. The
  listener socket is a field of the state. Of \<^verbatim>\<open>struct aws_socket\<close> the bootstrap reads
  one field, the event loop the socket is assigned to (\<^verbatim>\<open>NULL\<close> while it is assigned to
  none); the state as \<^verbatim>\<open>aws_mem_calloc\<close> returns it has no loop.
\<close>

type_synonym aws_event_loop = nat
type_synonym address = "64 word"

record listener_socket =
  event_loop :: "aws_event_loop option"

record server_connection_args =
  listener :: listener_socket
  destroy_callback :: "fn_ptr option"
  srv_on_protocol_negotiated :: "fn_ptr option"
  srv_user_on_negotiation_result :: "fn_ptr option"
  srv_use_tls :: bool
  srv_ref_count :: "64 word"

record server_world = server_connection_args +
  srv_trace :: "event list"

record server_channel_data =
  srv_channel :: "aws_channel option"
  srv_socket :: "aws_socket option"
  incoming_called :: bool

definition srv_emit :: "event \<Rightarrow> server_world \<Rightarrow> server_world" where
  "srv_emit e w = w\<lparr>srv_trace := srv_trace w @ [e]\<rparr>"

definition srv_emits :: "event list \<Rightarrow> server_world \<Rightarrow> server_world" where
  "srv_emits es w = w\<lparr>srv_trace := srv_trace w @ es\<rparr>"

definition s_server_connection_args_acquire :: "server_world \<Rightarrow> server_world" where
  "s_server_connection_args_acquire w =
     (let w1 = w\<lparr>srv_ref_count := srv_ref_count w + 1\<rparr>
      in if srv_ref_count w = 0 then srv_emit Bootstrap_acquire w1 else w1)"

definition s_server_connection_args_release :: "server_world \<Rightarrow> server_world" where
  "s_server_connection_args_release w =
     (let w1 = w\<lparr>srv_ref_count := srv_ref_count w - 1\<rparr>
      in if srv_ref_count w = 1 then
           srv_emits ((if destroy_callback w1 \<noteq> None then [Destroy_callback] else [])
                      @ [Bootstrap_release]
                      @ (if srv_use_tls w1 then [Tls_options_clean_up] else [])
                      @ [Release_args]) w1
         else w1)"

definition s_server_incoming_callback ::
  "server_world \<Rightarrow> server_channel_data \<Rightarrow> int \<Rightarrow> aws_channel option
     \<Rightarrow> server_world \<times> server_channel_data" where
  "s_server_incoming_callback w cd error_code chan =
     (srv_emit (Incoming_callback error_code chan) w, cd\<lparr>incoming_called := True\<rparr>)"





definition s_on_server_channel_on_shutdown ::
  "server_world \<Rightarrow> server_channel_data \<Rightarrow> aws_channel option \<Rightarrow> int
     \<Rightarrow> server_world \<times> server_channel_data option" where
  "s_on_server_channel_on_shutdown w cd chan error_code =
     (let (w1, cd1) =
            (if \<not> incoming_called cd then
               s_server_incoming_callback w cd
                 (if error_code \<noteq> 0 then error_code else AWS_ERROR_UNKNOWN) None
             else (srv_emit (Server_shutdown_callback error_code chan) w, cd));
          w2 = srv_emits [Channel_destroy chan, Socket_clean_up (srv_socket cd1),
                          Release_socket (srv_socket cd1)] w1;
          w3 = s_server_connection_args_release w2
      in (srv_emit Release_channel_data w3, None))"




subsection \<open>Listeners\<close>

definition s_listener_destroy_task :: "server_world \<Rightarrow> server_world" where
  "s_listener_destroy_task w =
     s_server_connection_args_release (srv_emits [Listener_stop_accept, Listener_clean_up] w)"

text \<open>
  What a caller holds of a listener is the address of the field \<^verbatim>\<open>listener\<close> of a server
  state. Addresses are 64-bit words, and \<open>server_memory\<close> gives the server state that is
  allocated at an address. \<open>listener_offset\<close> is
  \<^verbatim>\<open>offsetof(struct server_connection_args, listener)\<close>: the field follows the pointer
  \<^verbatim>\<open>bootstrap\<close>, the first field of the struct, which takes 8 bytes on an LP64 target.
  \<open>listener_pointer\<close> is \<^verbatim>\<open>&server_connection_args->listener\<close>, and \<^verbatim>\<open>AWS_CONTAINER_OF\<close>
  subtracts the offset of the field from the pointer to it.
\<close>

type_synonym server_memory = "address \<Rightarrow> server_world option"

definition listener_offset :: address where
  "listener_offset = 8"

definition listener_pointer :: "address \<Rightarrow> address" where
  "listener_pointer server_connection_args = server_connection_args + listener_offset"

definition AWS_CONTAINER_OF :: "address \<Rightarrow> address" where
  "AWS_CONTAINER_OF ptr = ptr - listener_offset"

text \<open>
  \<^verbatim>\<open>aws_server_bootstrap_destroy_socket_listener\<close>. \<^verbatim>\<open>listener->event_loop\<close> is read from
  the listener field of the state that \<^verbatim>\<open>AWS_CONTAINER_OF\<close> recovers. The task that is
  scheduled is the \<^verbatim>\<open>listener_destroy_task\<close> of that state, whose argument \<^verbatim>\<open>aws_task_init\<close>
  has set to the address of the state; the event carries the loop and that address. The
  result is \<open>None\<close> where the C has no defined behaviour: no server state is allocated at
  the recovered address, or the listener is assigned to no event loop.
\<close>

definition aws_server_bootstrap_destroy_socket_listener ::
  "server_memory \<Rightarrow> address \<Rightarrow> (op_result \<times> server_memory) option" where
  "aws_server_bootstrap_destroy_socket_listener mem listener_ptr =
     (let server_connection_args = AWS_CONTAINER_OF listener_ptr
      in case mem server_connection_args of
           None \<Rightarrow> None
         | Some w \<Rightarrow>
             (case event_loop (listener w) of
                None \<Rightarrow> None
              | Some loop \<Rightarrow>
                  Some (AWS_OP_SUCCESS,
                        mem(server_connection_args \<mapsto>
                              srv_emit (Schedule_listener_destroy_task loop
                                          server_connection_args) w))))"

text \<open>
  Modelled from the spec: \<^verbatim>\<open>aws_socket_start_accept\<close>, which is not part of the sources at
  hand. The spec (section 4.3) has a listener begin accepting on a next-round-robin event
  loop, and has \<^verbatim>\<open>destroy_socket_listener\<close> schedule its task on the listener's event loop.
  The model takes the loop a listener accepts on to be the listener's event loop: a
  \<^verbatim>\<open>aws_socket_start_accept\<close> that succeeds stores the loop in the socket.
\<close>

definition aws_socket_start_accept :: "listener_socket \<Rightarrow> aws_event_loop \<Rightarrow> listener_socket" where
  "aws_socket_start_accept sock accept_loop = sock\<lparr>event_loop := Some accept_loop\<rparr>"

text \<open>
  What the collaborators answer while \<^verbatim>\<open>s_server_new_socket_listener\<close> runs:
  \<open>listener_args_address\<close> is the address \<^verbatim>\<open>aws_mem_calloc\<close> returns for the state,
  \<open>connection_loop\<close> the loop \<^verbatim>\<open>aws_event_loop_group_get_next_loop\<close> returns.
\<close>

record new_listener_env =
  listener_args_alloc_ok :: bool
  listener_args_address :: address
  connection_loop :: aws_event_loop
  listener_tls_copy_ok :: bool
  listener_init_ok :: bool
  listener_bind_ok :: bool
  listener_listen_ok :: bool
  listener_start_accept_ok :: bool
  listener_raised_error :: int

text \<open>
  The result of the listener constructors: the pointer to the listener together with the
  state the listener is a field of, or \<^verbatim>\<open>NULL\<close> with the error \<^verbatim>\<open>aws_last_error()\<close> reports
  and the state that was allocated and released again, if one was.
\<close>

datatype listener_result =
    Listener address server_world
  | No_listener int "server_world option"

definition s_server_new_socket_listener ::
  "fn_ptr option \<Rightarrow> aws_tls_connection_options option \<Rightarrow> fn_ptr option \<Rightarrow> new_listener_env
     \<Rightarrow> listener_result" where
  "s_server_new_socket_listener alpn connection_options destroy_cb env =
     (if \<not> listener_args_alloc_ok env then No_listener (listener_raised_error env) None
      else
        let w0 = \<lparr>listener = \<lparr>event_loop = None\<rparr>,
                  destroy_callback = None, srv_on_protocol_negotiated = None,
                  srv_user_on_negotiation_result = None, srv_use_tls = False,
                  srv_ref_count = 0, srv_trace = [Acquire_args]\<rparr>;
            w1 = (s_server_connection_args_acquire w0)
                   \<lparr>destroy_callback := destroy_cb, srv_on_protocol_negotiated := alpn\<rparr>;
            fail = (\<lambda>w. No_listener (listener_raised_error env)
                           (Some (s_server_connection_args_release w)))
        in if connection_options \<noteq> None \<and> \<not> listener_tls_copy_ok env then fail w1
        else
          let w2 = (case connection_options of
                      None \<Rightarrow> w1
                    | Some co \<Rightarrow>
                        (srv_emit Tls_options_copy w1)
                          \<lparr>srv_use_tls := True,
                           srv_user_on_negotiation_result := on_negotiation_result co\<rparr>)
          in if \<not> listener_init_ok env then fail w2
             else let w3 = srv_emit Listener_init w2
             in if \<not> listener_bind_ok env then fail (srv_emit Listener_clean_up w3)
             else let w4 = srv_emit Listener_bind w3
             in if \<not> listener_listen_ok env then fail (srv_emit Listener_clean_up w4)
             else let w5 = srv_emit (Listener_listen 1024) w4
             in if \<not> listener_start_accept_ok env then fail (srv_emit Listener_clean_up w5)
             else Listener (listener_pointer (listener_args_address env))
                    ((srv_emit (Listener_start_accept (connection_loop env)) w5)
                       \<lparr>listener := aws_socket_start_accept (listener w5) (connection_loop env)\<rparr>))"

definition aws_server_bootstrap_new_socket_listener ::
  "fn_ptr option \<Rightarrow> fn_ptr option \<Rightarrow> new_listener_env \<Rightarrow> listener_result" where
  "aws_server_bootstrap_new_socket_listener alpn destroy_cb env =
     s_server_new_socket_listener alpn None destroy_cb env"

definition aws_server_bootstrap_new_tls_socket_listener ::
  "bool \<Rightarrow> fn_ptr option \<Rightarrow> aws_socket_options \<Rightarrow> aws_tls_connection_options
     \<Rightarrow> fn_ptr option \<Rightarrow> new_listener_env \<Rightarrow> fatal + listener_result" where
  "aws_server_bootstrap_new_tls_socket_listener library_initialized alpn opts
       connection_options destroy_cb env =
     (if \<not> library_initialized then Inl Fatal_assert_failed
      else if type opts \<noteq> AWS_SOCKET_STREAM
      then Inr (No_listener AWS_IO_SOCKET_INVALID_OPTIONS None)
      else Inr (s_server_new_socket_listener alpn (Some connection_options) destroy_cb env))"

definition srv_emitted :: "server_world \<Rightarrow> server_world \<Rightarrow> event list" where
  "srv_emitted w w' = drop (length (srv_trace w)) (srv_trace w')"

fun is_incoming :: "event \<Rightarrow> bool" where
  "is_incoming (Incoming_callback e c) = True"
| "is_incoming _ = False"

fun is_destroy :: "event \<Rightarrow> bool" where
  "is_destroy Destroy_callback = True"
| "is_destroy _ = False"

section \<open>Executions\<close>

subsection \<open>One accepted connection of a listener\<close>







subsection \<open>The references of a listener\<close>

text \<open>
  The operations on the reference count of one server state, in the order they happen: an
  accepted connection acquires, the end of a connection releases, the listener destroy
  task releases. The release that takes the count to zero frees the state
  (\<open>Release_args\<close>); an operation on a freed state has no successor.
\<close>

datatype reference_op = Acquire_ref | Release_ref | Run_listener_destroy_task

fun reference_step :: "reference_op \<Rightarrow> server_world \<Rightarrow> server_world" where
  "reference_step Acquire_ref w = s_server_connection_args_acquire w"
| "reference_step Release_ref w = s_server_connection_args_release w"
| "reference_step Run_listener_destroy_task w = s_listener_destroy_task w"

definition freed :: "server_world \<Rightarrow> bool" where
  "freed w = (Release_args \<in> set (srv_trace w))"

fun reference_run :: "reference_op list \<Rightarrow> server_world \<Rightarrow> server_world option" where
  "reference_run [] w = Some w"
| "reference_run (r # rs) w =
     (if freed w then None else reference_run rs (reference_step r w))"

subsection \<open>One client connection\<close>

text \<open>
  The callbacks that reach one client connection state, each with what the collaborators
  answer during the call.
\<close>

datatype client_event =
    Host_resolved int "aws_host_address list" nat "nat \<Rightarrow> alloc_result" int
  | Attempt_connection connection_task_data aws_task_status aws_socket connect_outcome int
  | Connection_established aws_socket string int bool "aws_channel option"
  | Channel_setup_completed "aws_channel option" int channel_setup_env int
  | Tls_negotiation_result "aws_channel option" int
  | Channel_shutdown_completed "aws_channel option" int

fun client_step :: "client_world \<Rightarrow> client_event \<Rightarrow> fatal + client_world" where
  "client_step w (Host_resolved err_code host_addresses loop alloc last_error) =
     s_on_host_resolved w err_code host_addresses loop alloc last_error"
| "client_step w (Attempt_connection td status sock outcome last_error) =
     Inr (s_attempt_connection w td status sock outcome last_error)"
| "client_step w (Connection_established sock remote_address error_code address_ok new_channel) =
     Inr (s_on_client_connection_established w sock remote_address error_code address_ok
            new_channel)"
| "client_step w (Channel_setup_completed chan error_code env last_error) =
     Inr (s_on_client_channel_on_setup_completed w chan error_code env last_error)"
| "client_step w (Tls_negotiation_result slot_channel err_code) =
     Inr (s_tls_client_on_negotiation_result w slot_channel err_code)"
| "client_step w (Channel_shutdown_completed chan error_code) =
     Inr (s_on_client_channel_on_shutdown w chan error_code)"

fun client_run :: "client_world \<Rightarrow> client_event list \<Rightarrow> fatal + client_world" where
  "client_run w [] = Inr w"
| "client_run w (e # es) =
     (case client_step w e of Inl f \<Rightarrow> Inl f | Inr w' \<Rightarrow> client_run w' es)"

subsection \<open>Projections of a trace\<close>

fun acquired_tasks :: "event list \<Rightarrow> nat list" where
  "acquired_tasks [] = []"
| "acquired_tasks (Acquire_task_data i # es) = i # acquired_tasks es"
| "acquired_tasks (e # es) = acquired_tasks es"

fun released_tasks :: "event list \<Rightarrow> nat list" where
  "released_tasks [] = []"
| "released_tasks (Release_task_data i # es) = i # released_tasks es"
| "released_tasks (e # es) = released_tasks es"

fun scheduled_tasks :: "event list \<Rightarrow> connection_task_data list" where
  "scheduled_tasks [] = []"
| "scheduled_tasks (Schedule_task td # es) = td # scheduled_tasks es"
| "scheduled_tasks (e # es) = scheduled_tasks es"

fun is_record_failure :: "event \<Rightarrow> bool" where
  "is_record_failure (Record_connection_failure h) = True"
| "is_record_failure _ = False"

fun is_socket_call :: "event \<Rightarrow> bool" where
  "is_socket_call (Socket_close s) = True"
| "is_socket_call (Socket_clean_up s) = True"
| "is_socket_call (Release_socket s) = True"
| "is_socket_call _ = False"

text \<open>The events of \<open>free_tasks\<close>.\<close>

fun free_events :: "connection_task_data option list \<Rightarrow> event list" where
  "free_events [] = []"
| "free_events (None # ts) = free_events ts"
| "free_events (Some td # ts) =
     [Host_address_clean_up (task td), Release_task_data (task td)] @ free_events ts"

text \<open>The event loop dispatches the given connection tasks with the status Cancelled.\<close>

fun cancel_attempts :: "connection_task_data list \<Rightarrow> client_world \<Rightarrow> client_world" where
  "cancel_attempts [] w = w"
| "cancel_attempts (td # tds) w =
     cancel_attempts tds (s_attempt_connection w td AWS_TASK_STATUS_CANCELED 0 Socket_alloc_failed 0)"

text \<open>The tasks of the non-null entries of \<^verbatim>\<open>tasks[]\<close>.\<close>

fun task_ids :: "connection_task_data option list \<Rightarrow> nat list" where
  "task_ids [] = []"
| "task_ids (None # ts) = task_ids ts"
| "task_ids (Some td # ts) = task td # task_ids ts"

text \<open>The calls of the reference counting: pinning the bootstrap, freeing the state.\<close>

fun is_refcount_event :: "event \<Rightarrow> bool" where
  "is_refcount_event Bootstrap_acquire = True"
| "is_refcount_event Bootstrap_release = True"
| "is_refcount_event String_destroy = True"
| "is_refcount_event Tls_options_clean_up = True"
| "is_refcount_event Release_args = True"
| "is_refcount_event _ = False"

fun is_server_shutdown :: "event \<Rightarrow> bool" where
  "is_server_shutdown (Server_shutdown_callback e c) = True"
| "is_server_shutdown _ = False"


text \<open>The address \<^verbatim>\<open>s_on_client_connection_established\<close> reports to the resolver.\<close>

definition failed_address :: "client_world \<Rightarrow> string \<Rightarrow> aws_host_address" where
  "failed_address w remote_address =
     \<lparr>host = host_name w, address = remote_address,
      record_type = (if domain (outgoing_options w) = AWS_SOCKET_IPV6
                     then AWS_ADDRESS_RECORD_TYPE_AAAA else AWS_ADDRESS_RECORD_TYPE_A)\<rparr>"

section \<open>Concrete executions\<close>

text \<open>
  A client connection to \<^verbatim>\<open>example.com:443\<close> over a plain stream socket, with collaborators
  that succeed at every call made by \<^verbatim>\<open>aws_client_bootstrap_new_socket_channel\<close>;
  \<open>started\<close> is the connection state that call leaves behind, waiting for the resolver.
\<close>

definition stream_options :: aws_socket_options where
  "stream_options = \<lparr>domain = AWS_SOCKET_IPV4, type = AWS_SOCKET_STREAM\<rparr>"

definition datagram_options :: aws_socket_options where
  "datagram_options = \<lparr>domain = AWS_SOCKET_IPV4, type = AWS_SOCKET_DGRAM\<rparr>"

definition cooperative :: new_channel_env where
  "cooperative =
     \<lparr>args_alloc_ok = True, tls_options_copy_ok = True, host_name_alloc_ok = True,
      resolve_host_ok = True, socket_alloc_ok = True, socket_init_ok = True,
      socket_connect_ok = True, new_socket = 0, raised_error = 0\<rparr>"

definition started :: client_world where
  "started =
     \<lparr>shutdown_callback = Some 1,
      channel_data = \<lparr>channel = None, socket = None, on_protocol_negotiated = None,
                      user_on_negotiation_result = None, use_tls = False\<rparr>,
      outgoing_options = stream_options, outgoing_port = 443,
      host_name = Some ''example.com'', addresses_count = 0, failed_count = 0,
      connection_chosen = False, setup_called = False, ref_count = 1,
      trace = [Acquire_args, Bootstrap_acquire, String_new, Resolve_host ''example.com'']\<rparr>"

definition address_one :: aws_host_address where
  "address_one =
     \<lparr>host = Some ''example.com'', address = ''10.0.0.1'',
      record_type = AWS_ADDRESS_RECORD_TYPE_A\<rparr>"

definition address_two :: aws_host_address where
  "address_two =
     \<lparr>host = Some ''example.com'', address = ''10.0.0.2'',
      record_type = AWS_ADDRESS_RECORD_TYPE_A\<rparr>"

definition every_alloc_ok :: "nat \<Rightarrow> alloc_result" where
  "every_alloc_ok i = Alloc_ok"

definition second_alloc_fails :: "nat \<Rightarrow> alloc_result" where
  "second_alloc_fails i = (if i = 1 then Calloc_failed else Alloc_ok)"

text \<open>
  The resolver answers with one address, or with two; the event loop then runs the
  connection tasks, which start their connects on the sockets 10 and 11.
\<close>

definition task_one :: connection_task_data where
  "task_one = new_task_data started 0 0 address_one"

definition task_two :: connection_task_data where
  "task_two = new_task_data started 0 1 address_two"

definition resolved_one :: client_world where
  "resolved_one = projr (s_on_host_resolved started 0 [address_one] 0 every_alloc_ok 0)"

definition race_started :: "client_event list" where
  "race_started =
     [Host_resolved 0 [address_one, address_two] 0 every_alloc_ok 0,
      Attempt_connection task_one AWS_TASK_STATUS_RUN_READY 10 Socket_connect_started 0,
      Attempt_connection task_two AWS_TASK_STATUS_RUN_READY 11 Socket_connect_started 0]"

text \<open>
  The first connect succeeds and \<^verbatim>\<open>aws_channel_new\<close> returns channel 5: the race has a
  winner, and the second connect has not reported yet.
\<close>

definition winner_chosen :: client_world where
  "winner_chosen =
     projr (client_run started
              (race_started @ [Connection_established 10 ''10.0.0.1'' 0 True (Some 5)]))"

text \<open>
  The first connect succeeds and \<^verbatim>\<open>aws_channel_new\<close> returns \<^verbatim>\<open>NULL\<close>; then the second
  connect succeeds as well. Both tasks have run and both sockets have reported, so no
  callback is outstanding afterwards.
\<close>

definition lost_setup :: "client_event list" where
  "lost_setup =
     race_started
     @ [Connection_established 10 ''10.0.0.1'' 0 True None,
        Connection_established 11 ''10.0.0.2'' 0 True None]"

text \<open>A client state that waits for its TLS negotiation on channel 5.\<close>

definition negotiating :: client_world where
  "negotiating =
     \<lparr>shutdown_callback = Some 1,
      channel_data = \<lparr>channel = Some 5, socket = Some 10, on_protocol_negotiated = None,
                      user_on_negotiation_result = None, use_tls = True\<rparr>,
      outgoing_options = stream_options, outgoing_port = 443,
      host_name = Some ''example.com'', addresses_count = 1, failed_count = 0,
      connection_chosen = True, setup_called = False, ref_count = 2, trace = []\<rparr>"

text \<open>
  A listener without TLS that accepts on loop 2, holds its own reference and has a destroy
  callback; the same listener with TLS; and a memory in which the first is allocated at
  the address 4096.
\<close>

definition listening :: server_world where
  "listening =
     \<lparr>listener = \<lparr>event_loop = Some 2\<rparr>,
      destroy_callback = Some 3, srv_on_protocol_negotiated = None,
      srv_user_on_negotiation_result = None, srv_use_tls = False, srv_ref_count = 1,
      srv_trace = []\<rparr>"


definition one_listener :: server_memory where
  "one_listener = Map.empty(4096 \<mapsto> listening)"


definition cooperative_listener :: new_listener_env where
  "cooperative_listener =
     \<lparr>listener_args_alloc_ok = True, listener_args_address = 4096, connection_loop = 2,
      listener_tls_copy_ok = True, listener_init_ok = True,
      listener_bind_ok = True, listener_listen_ok = True, listener_start_accept_ok = True,
      listener_raised_error = 0\<rparr>"

definition pending_channel :: server_channel_data where
  "pending_channel = \<lparr>srv_channel = Some 5, srv_socket = Some 10, incoming_called = False\<rparr>"





subsection \<open>The incoming callback that an accepted connection is due\<close>






section \<open>Basic facts\<close>

lemmas client_defs = emit_def emits_def emitted_def s_client_connection_args_acquire_def
  s_client_connection_args_release_def s_connection_args_setup_callback_def
  s_connection_args_shutdown_callback_def

lemmas server_defs = srv_emit_def srv_emits_def srv_emitted_def
  s_server_connection_args_acquire_def s_server_connection_args_release_def
  s_server_incoming_callback_def

lemma emits_emits [simp]: "emits es (emits ds w) = emits (ds @ es) w"
  by (simp add: emits_def)

lemma emit_emits: "emit e w = emits [e] w"
  by (simp add: emit_def emits_def)

lemma emits_fields [simp]:
  "outgoing_port (emits es w) = outgoing_port w"
  "outgoing_options (emits es w) = outgoing_options w"
  "trace (emits es w) = trace w @ es"
  by (simp_all add: emits_def)

lemma new_task_data_emits [simp]: "new_task_data (emits es w) loop i h = new_task_data w loop i h"
  by (simp add: new_task_data_def)

lemma task_new_task_data [simp]: "task (new_task_data w loop i h) = i"
  by (simp add: new_task_data_def)

lemma free_tasks_emits: "free_tasks ts w = emits (free_events ts) w"
  by (induction ts w rule: free_tasks.induct) (simp_all add: emits_def)

lemma acquired_tasks_append [simp]: "acquired_tasks (xs @ ys) = acquired_tasks xs @ acquired_tasks ys"
  by (induction xs rule: acquired_tasks.induct) simp_all

lemma released_tasks_append [simp]: "released_tasks (xs @ ys) = released_tasks xs @ released_tasks ys"
  by (induction xs rule: released_tasks.induct) simp_all

lemma scheduled_tasks_append [simp]: "scheduled_tasks (xs @ ys) = scheduled_tasks xs @ scheduled_tasks ys"
  by (induction xs rule: scheduled_tasks.induct) simp_all

lemma task_ids_append [simp]: "task_ids (xs @ ys) = task_ids xs @ task_ids ys"
  by (induction xs rule: task_ids.induct) simp_all

lemma free_events_proj [simp]:
  "released_tasks (free_events ts) = task_ids ts"
  "acquired_tasks (free_events ts) = []"
  "scheduled_tasks (free_events ts) = []"
  "filter is_setup (free_events ts) = []"
  by (induction ts rule: free_events.induct) simp_all

lemma allocate_tasks_ok:
  "\<forall>k < length hs. alloc (i + k) = Alloc_ok \<Longrightarrow>
   \<exists>es tds. allocate_tasks alloc loop i hs tasks w = (Some (map the tasks @ tds), emits es w)
      \<and> map task tds = [i ..< i + length hs]
      \<and> acquired_tasks es = [i ..< i + length hs]
      \<and> released_tasks es = [] \<and> scheduled_tasks es = [] \<and> filter is_setup es = []"
proof (induction hs arbitrary: i tasks w)
  case Nil
  have "allocate_tasks alloc loop i [] tasks w = (Some (map the tasks @ []), emits [] w)"
    by (simp add: emits_def)
  then show ?case by force
next
  case (Cons h hs)
  have a0: "alloc i = Alloc_ok"
    using Cons.prems [rule_format, of 0] by simp
  have rest: "\<forall>k < length hs. alloc (Suc i + k) = Alloc_ok"
    using Cons.prems by auto
  let ?td = "new_task_data w loop i h"
  let ?w1 = "emits [Acquire_task_data i, Host_address_copy i] w"
  from Cons.IH [OF rest, of "tasks @ [Some ?td]" ?w1]
  obtain es tds where
    run: "allocate_tasks alloc loop (Suc i) hs (tasks @ [Some ?td]) ?w1
            = (Some (map the (tasks @ [Some ?td]) @ tds), emits es ?w1)"
    and ids: "map task tds = [Suc i ..< Suc i + length hs]"
    and acq: "acquired_tasks es = [Suc i ..< Suc i + length hs]"
    and none: "released_tasks es = []" "scheduled_tasks es = []" "filter is_setup es = []"
    by blast
  have upt: "[i ..< i + length (h # hs)] = i # [Suc i ..< Suc i + length hs]"
  proof -
    have e: "i + length (h # hs) = Suc i + length hs" by simp
    have "[i ..< Suc i + length hs] = i # [Suc i ..< Suc i + length hs]"
      by (rule upt_conv_Cons) simp
    then show ?thesis unfolding e .
  qed
  have "allocate_tasks alloc loop i (h # hs) tasks w
          = (Some (map the tasks @ (?td # tds)),
             emits ([Acquire_task_data i, Host_address_copy i] @ es) w)"
    using a0 run by (simp add: emit_emits)
  moreover have "map task (?td # tds) = [i ..< i + length (h # hs)]"
    unfolding upt using ids by (simp del: upt_Suc)
  moreover have "acquired_tasks ([Acquire_task_data i, Host_address_copy i] @ es)
                   = [i ..< i + length (h # hs)]"
    unfolding upt using acq by (simp del: upt_Suc)
  moreover have "released_tasks ([Acquire_task_data i, Host_address_copy i] @ es) = []"
    "scheduled_tasks ([Acquire_task_data i, Host_address_copy i] @ es) = []"
    "filter is_setup ([Acquire_task_data i, Host_address_copy i] @ es) = []"
    using none by simp_all
  ultimately show ?case by blast
qed

lemma allocate_tasks_failed:
  "\<exists>k < length hs. alloc (i + k) \<noteq> Alloc_ok \<Longrightarrow>
   \<exists>es. allocate_tasks alloc loop i hs tasks w = (None, emits es w)
      \<and> released_tasks es = task_ids tasks @ acquired_tasks es
      \<and> scheduled_tasks es = [] \<and> filter is_setup es = []"
proof (induction hs arbitrary: i tasks w)
  case Nil
  then show ?case by simp
next
  case (Cons h hs)
  let ?td = "new_task_data w loop i h"
  show ?case
  proof (cases "alloc i")
    case Calloc_failed
    have "allocate_tasks alloc loop i (h # hs) tasks w
            = (None, emits (free_events (tasks @ [None])) w)"
      using Calloc_failed by (simp add: free_tasks_emits)
    moreover have "released_tasks (free_events (tasks @ [None]))
                     = task_ids tasks @ acquired_tasks (free_events (tasks @ [None]))"
      by simp
    ultimately show ?thesis
      by (metis free_events_proj(3) free_events_proj(4))
  next
    case Copy_failed
    let ?es = "[Acquire_task_data i] @ free_events (tasks @ [Some ?td])"
    have "allocate_tasks alloc loop i (h # hs) tasks w = (None, emits ?es w)"
      using Copy_failed by (simp add: free_tasks_emits emit_emits)
    moreover have "released_tasks ?es = task_ids tasks @ acquired_tasks ?es"
      by simp
    moreover have "scheduled_tasks ?es = []" "filter is_setup ?es = []"
      by simp_all
    ultimately show ?thesis by blast
  next
    case Alloc_ok
    have "\<exists>k < length hs. alloc (Suc i + k) \<noteq> Alloc_ok"
    proof -
      from Cons.prems obtain k where k: "k < length (h # hs)" "alloc (i + k) \<noteq> Alloc_ok"
        by blast
      with Alloc_ok have "k \<noteq> 0" by (cases k) auto
      then obtain j where "k = Suc j" by (cases k) auto
      with k show ?thesis by auto
    qed
    from Cons.IH [OF this, of "tasks @ [Some ?td]" "emits [Acquire_task_data i, Host_address_copy i] w"]
    obtain es where
      run: "allocate_tasks alloc loop (Suc i) hs (tasks @ [Some ?td])
              (emits [Acquire_task_data i, Host_address_copy i] w)
            = (None, emits es (emits [Acquire_task_data i, Host_address_copy i] w))"
      and rel: "released_tasks es = task_ids (tasks @ [Some ?td]) @ acquired_tasks es"
      and none: "scheduled_tasks es = []" "filter is_setup es = []"
      by blast
    let ?es = "[Acquire_task_data i, Host_address_copy i] @ es"
    have "allocate_tasks alloc loop i (h # hs) tasks w = (None, emits ?es w)"
      using Alloc_ok run by (simp add: emit_emits)
    moreover have "released_tasks ?es = task_ids tasks @ acquired_tasks ?es"
      using rel by simp
    moreover have "scheduled_tasks ?es = []" "filter is_setup ?es = []"
      using none by simp_all
    ultimately show ?thesis by blast
  qed
qed

lemma emits_ref_count: "emits es (w\<lparr>ref_count := r\<rparr>) = (emits es w)\<lparr>ref_count := r\<rparr>"
  by (simp add: emits_def)

lemma acquire_emits:
  "\<exists>es. s_client_connection_args_acquire w = (emits es w)\<lparr>ref_count := ref_count w + 1\<rparr>
     \<and> scheduled_tasks es = [] \<and> acquired_tasks es = [] \<and> released_tasks es = []
     \<and> filter is_setup es = []"
proof (cases "ref_count w = 0")
  case True
  then have "s_client_connection_args_acquire w
               = (emits [Bootstrap_acquire] w)\<lparr>ref_count := ref_count w + 1\<rparr>"
    by (simp add: s_client_connection_args_acquire_def emit_def emits_def)
  then show ?thesis by force
next
  case False
  then have "s_client_connection_args_acquire w = (emits [] w)\<lparr>ref_count := ref_count w + 1\<rparr>"
    by (simp add: s_client_connection_args_acquire_def emits_def)
  then show ?thesis by force
qed

lemma schedule_tasks_emits:
  "\<exists>es. schedule_tasks tds w = (emits es w)\<lparr>ref_count := ref_count w + of_nat (length tds)\<rparr>
     \<and> scheduled_tasks es = tds \<and> acquired_tasks es = [] \<and> released_tasks es = []
     \<and> filter is_setup es = []"
proof (induction tds arbitrary: w)
  case Nil
  have "schedule_tasks [] w = (emits [] w)\<lparr>ref_count := ref_count w + of_nat (length ([] :: connection_task_data list))\<rparr>"
    by (simp add: emits_def)
  then show ?case by force
next
  case (Cons td tds)
  obtain as where
    acq: "s_client_connection_args_acquire w = (emits as w)\<lparr>ref_count := ref_count w + 1\<rparr>"
    and as: "scheduled_tasks as = []" "acquired_tasks as = []" "released_tasks as = []"
      "filter is_setup as = []"
    using acquire_emits by blast
  let ?w1 = "emit (Schedule_task td) (s_client_connection_args_acquire w)"
  have w1: "?w1 = (emits (as @ [Schedule_task td]) w)\<lparr>ref_count := ref_count w + 1\<rparr>"
    by (simp add: acq emit_def emits_def)
  obtain es where
    run: "schedule_tasks tds ?w1 = (emits es ?w1)\<lparr>ref_count := ref_count ?w1 + of_nat (length tds)\<rparr>"
    and es: "scheduled_tasks es = tds" "acquired_tasks es = []" "released_tasks es = []"
      "filter is_setup es = []"
    using Cons.IH by blast
  have "schedule_tasks (td # tds) w = schedule_tasks tds ?w1"
    by simp
  also have "\<dots> = (emits es ?w1)\<lparr>ref_count := ref_count ?w1 + of_nat (length tds)\<rparr>"
    by (rule run)
  also have "\<dots> = (emits ((as @ [Schedule_task td]) @ es) w)
                      \<lparr>ref_count := ref_count w + of_nat (length (td # tds))\<rparr>"
    unfolding w1 by (simp add: emits_def add.assoc)
  finally have "schedule_tasks (td # tds) w
          = (emits ((as @ [Schedule_task td]) @ es) w)
              \<lparr>ref_count := ref_count w + of_nat (length (td # tds))\<rparr>" .
  moreover have "scheduled_tasks ((as @ [Schedule_task td]) @ es) = td # tds"
    "acquired_tasks ((as @ [Schedule_task td]) @ es) = []"
    "released_tasks ((as @ [Schedule_task td]) @ es) = []"
    "filter is_setup ((as @ [Schedule_task td]) @ es) = []"
    using as es by simp_all
  ultimately show ?case by blast
qed

lemma setup_callback_delivers:
  "\<not> setup_called w \<Longrightarrow>
   \<exists>es. trace (s_connection_args_setup_callback w e c) = trace w @ Setup_callback e c # es
      \<and> filter is_setup es = [] \<and> scheduled_tasks es = [] \<and> acquired_tasks es = []
      \<and> released_tasks es = []"
  by (simp add: client_defs Let_def)

lemma setup_callback_fresh:
  "\<not> setup_called w \<Longrightarrow> setup_called (s_connection_args_setup_callback w e c)"
  "\<not> setup_called w \<Longrightarrow>
     ref_count (s_connection_args_setup_callback w e c) = ref_count w - 1"
  by (simp_all add: client_defs Let_def)

lemma setup_callback_counts:
  "addresses_count (s_connection_args_setup_callback w e c) = addresses_count w"
  "failed_count (s_connection_args_setup_callback w e c) = failed_count w"
  by (simp_all add: client_defs Let_def)

lemma started_reached:
  "aws_client_bootstrap_new_socket_channel None ''example.com'' 443 stream_options (Some 1)
     cooperative = (AWS_OP_SUCCESS, Some started)"
  by (simp add: aws_client_bootstrap_new_socket_channel_def s_new_client_channel_def
        cooperative_def stream_options_def started_def client_defs Let_def)

section \<open>Host resolution schedules all attempts or none\<close>

text \<open>
  Claim C4. After a successful resolution (\<open>err_code = 0\<close>, a non-empty address list) on a
  state whose setup callback is still due, \<^verbatim>\<open>s_on_host_resolved\<close> returns with
  \<open>addresses_count\<close> set from the length of the list. When every allocation succeeds, the
  calls it made split into a first part that allocates the task structures \<open>0, \<dots>, n - 1\<close>
  and schedules nothing, and a second part that schedules the tasks \<open>0, \<dots>, n - 1\<close> and
  allocates nothing; no task structure is freed and the setup callback is not invoked. When
  some allocation fails, the task structures freed are exactly those allocated, no task is
  scheduled, the setup callback is invoked exactly once, with \<^verbatim>\<open>aws_last_error()\<close> and a
  null channel, and one reference on the state is released.
\<close>

theorem host_resolved_all_or_nothing:
  assumes "host_addresses \<noteq> []" and "\<not> setup_called w"
  shows "\<exists>w'. s_on_host_resolved w 0 host_addresses loop alloc last_error = Inr w'
     \<and> addresses_count w' = of_nat (length host_addresses)
     \<and> (if \<forall>i < length host_addresses. alloc i = Alloc_ok
        then (\<exists>a s. emitted w w' = a @ s
                \<and> acquired_tasks a = [0 ..< length host_addresses] \<and> scheduled_tasks a = []
                \<and> map task (scheduled_tasks s) = [0 ..< length host_addresses]
                \<and> acquired_tasks s = [])
             \<and> released_tasks (emitted w w') = []
             \<and> filter is_setup (emitted w w') = []
        else released_tasks (emitted w w') = acquired_tasks (emitted w w')
             \<and> scheduled_tasks (emitted w w') = []
             \<and> filter is_setup (emitted w w') = [Setup_callback last_error None]
             \<and> setup_called w'
             \<and> ref_count w' = ref_count w - 1)"
proof (cases "\<forall>i < length host_addresses. alloc i = Alloc_ok")
  case True
  let ?w1 = "w\<lparr>addresses_count := of_nat (length host_addresses)\<rparr>"
  from True have "\<forall>k < length host_addresses. alloc (0 + k) = Alloc_ok" by simp
  from allocate_tasks_ok [OF this, of loop "[]" ?w1]
  obtain a tds where
    alloc: "allocate_tasks alloc loop 0 host_addresses [] ?w1 = (Some tds, emits a ?w1)"
    and tds: "map task tds = [0 ..< length host_addresses]"
    and a: "acquired_tasks a = [0 ..< length host_addresses]" "released_tasks a = []"
      "scheduled_tasks a = []" "filter is_setup a = []"
    by auto
  obtain s where
    sched: "schedule_tasks tds (emits a ?w1)
              = (emits s (emits a ?w1))\<lparr>ref_count := ref_count (emits a ?w1) + of_nat (length tds)\<rparr>"
    and s: "scheduled_tasks s = tds" "acquired_tasks s = []" "released_tasks s = []"
      "filter is_setup s = []"
    using schedule_tasks_emits by blast
  let ?w' = "schedule_tasks tds (emits a ?w1)"
  have res: "s_on_host_resolved w 0 host_addresses loop alloc last_error = Inr ?w'"
    using assms(1) alloc by (simp add: s_on_host_resolved_def)
  have em: "emitted w ?w' = a @ s"
    unfolding sched by (simp add: emitted_def emits_def)
  have cnt: "addresses_count ?w' = of_nat (length host_addresses)"
    unfolding sched by (simp add: emits_def)
  have "\<exists>a s. emitted w ?w' = a @ s
          \<and> acquired_tasks a = [0 ..< length host_addresses] \<and> scheduled_tasks a = []
          \<and> map task (scheduled_tasks s) = [0 ..< length host_addresses]
          \<and> acquired_tasks s = []"
    using em a s tds by blast
  moreover have "released_tasks (emitted w ?w') = []" "filter is_setup (emitted w ?w') = []"
    using a s by (simp_all add: em)
  ultimately show ?thesis
    using True res cnt by simp
next
  case False
  let ?w1 = "w\<lparr>addresses_count := of_nat (length host_addresses)\<rparr>"
  from False have "\<exists>k < length host_addresses. alloc (0 + k) \<noteq> Alloc_ok" by simp
  from allocate_tasks_failed [OF this, of loop "[]" ?w1]
  obtain es where
    alloc: "allocate_tasks alloc loop 0 host_addresses [] ?w1 = (None, emits es ?w1)"
    and es: "released_tasks es = acquired_tasks es" "scheduled_tasks es = []"
      "filter is_setup es = []"
    by auto
  let ?w2 = "emits es ?w1"
  let ?w' = "s_connection_args_setup_callback ?w2 last_error None"
  have fresh: "\<not> setup_called ?w2"
    using assms(2) by (simp add: emits_def)
  have res: "s_on_host_resolved w 0 host_addresses loop alloc last_error = Inr ?w'"
    using assms(1) alloc by (simp add: s_on_host_resolved_def)
  obtain rs where
    tr: "trace ?w' = trace ?w2 @ Setup_callback last_error None # rs"
    and rs: "filter is_setup rs = []" "scheduled_tasks rs = []" "acquired_tasks rs = []"
      "released_tasks rs = []"
    using setup_callback_delivers [OF fresh] by blast
  have em: "emitted w ?w' = es @ Setup_callback last_error None # rs"
    unfolding emitted_def tr by (simp add: emits_def)
  have "released_tasks (emitted w ?w') = acquired_tasks (emitted w ?w')"
    "scheduled_tasks (emitted w ?w') = []"
    "filter is_setup (emitted w ?w') = [Setup_callback last_error None]"
    using es rs by (simp_all add: em)
  moreover have "setup_called ?w'" "ref_count ?w' = ref_count w - 1"
    "addresses_count ?w' = of_nat (length host_addresses)"
    using setup_callback_fresh [OF fresh, of last_error None]
      setup_callback_counts(1) [of ?w2 last_error None]
    by (simp_all add: emits_def)
  ultimately show ?thesis
    using False res by simp
qed

theorem host_resolved_all_or_nothing_witness:
  "[address_one, address_two] \<noteq> [] \<and> \<not> setup_called started
   \<and> (\<exists>w'. s_on_host_resolved started 0 [address_one, address_two] 0 second_alloc_fails 1 = Inr w'
          \<and> addresses_count w' = 2
          \<and> released_tasks (emitted started w') = acquired_tasks (emitted started w')
          \<and> scheduled_tasks (emitted started w') = []
          \<and> filter is_setup (emitted started w') = [Setup_callback 1 None]
          \<and> setup_called w' \<and> ref_count w' = 0)"
proof -
  have h1: "[address_one, address_two] \<noteq> []" by simp
  have h2: "\<not> setup_called started" by (simp add: started_def)
  have h3: "\<not> (\<forall>i < length [address_one, address_two]. second_alloc_fails i = Alloc_ok)"
    by (auto simp: second_alloc_fails_def intro!: exI [of _ 1])
  have r: "ref_count started - 1 = 0" by (simp add: started_def)
  show ?thesis
    using host_resolved_all_or_nothing [OF h1 h2, of 0 second_alloc_fails 1] h2 h3
    by (simp only: h3 if_False r) simp
qed

section \<open>The address count is an 8-bit field\<close>

lemma cancelled_counts:
  "failed_count (s_attempt_connection w td AWS_TASK_STATUS_CANCELED sock outcome last_error)
     = failed_count w + 1"
  "addresses_count (s_attempt_connection w td AWS_TASK_STATUS_CANCELED sock outcome last_error)
     = addresses_count w"
  by (simp_all add: s_attempt_connection_def attempt_task_cancelled_def
        attempt_cleanup_task_def client_defs Let_def)

lemma cancel_attempts_counts:
  "failed_count (cancel_attempts tds w) = failed_count w + of_nat (length tds)
   \<and> addresses_count (cancel_attempts tds w) = addresses_count w"
  by (induction tds arbitrary: w) (simp_all add: cancelled_counts add.assoc)

lemma word8_of_nat_mod: "(of_nat (n mod 256) :: 8 word) = of_nat n"
  by (simp add: word_of_nat_eq_iff take_bit_eq_mod)

text \<open>
  Claim C10. After a successful resolution in which every allocation succeeds,
  \<open>addresses_count\<close> holds the length of the address list modulo 256, while one task
  per address is scheduled. For a list of more than 255 addresses the two differ, and the
  gate \<open>failed_count = addresses_count\<close> is open after only \<open>n mod 256\<close> of the \<open>n\<close>
  scheduled attempts have failed (here: were cancelled), fewer than were scheduled.
\<close>

theorem addresses_count_truncated:
  assumes "host_addresses \<noteq> []" and "\<forall>i < length host_addresses. alloc i = Alloc_ok"
    and "failed_count w = 0"
  shows "\<exists>w'. s_on_host_resolved w 0 host_addresses loop alloc last_error = Inr w'
     \<and> unat (addresses_count w') = length host_addresses mod 256
     \<and> length (scheduled_tasks (emitted w w')) = length host_addresses
     \<and> (255 < length host_addresses \<longrightarrow>
          unat (addresses_count w') \<noteq> length host_addresses
          \<and> length host_addresses mod 256 < length host_addresses
          \<and> failed_count
                (cancel_attempts
                   (take (length host_addresses mod 256) (scheduled_tasks (emitted w w'))) w')
              = addresses_count w')"
proof -
  let ?w1 = "w\<lparr>addresses_count := of_nat (length host_addresses)\<rparr>"
  from assms(2) have "\<forall>k < length host_addresses. alloc (0 + k) = Alloc_ok" by simp
  from allocate_tasks_ok [OF this, of loop "[]" ?w1]
  obtain a tds where
    alloc: "allocate_tasks alloc loop 0 host_addresses [] ?w1 = (Some tds, emits a ?w1)"
    and tds: "map task tds = [0 ..< length host_addresses]"
    and a: "scheduled_tasks a = []"
    by auto
  obtain s where
    sched: "schedule_tasks tds (emits a ?w1)
              = (emits s (emits a ?w1))\<lparr>ref_count := ref_count (emits a ?w1) + of_nat (length tds)\<rparr>"
    and s: "scheduled_tasks s = tds"
    using schedule_tasks_emits by blast
  let ?w' = "schedule_tasks tds (emits a ?w1)"
  let ?n = "length host_addresses"
  have res: "s_on_host_resolved w 0 host_addresses loop alloc last_error = Inr ?w'"
    using assms(1) alloc by (simp add: s_on_host_resolved_def)
  have len: "length tds = ?n"
    using tds by (metis length_map length_upt minus_nat.diff_0)
  have em: "scheduled_tasks (emitted w ?w') = tds"
    unfolding sched using a s by (simp add: emitted_def emits_def)
  have cnt: "addresses_count ?w' = of_nat ?n" and failed: "failed_count ?w' = 0"
    unfolding sched using assms(3) by (simp_all add: emits_def)
  have u: "unat (addresses_count ?w') = ?n mod 256"
    by (simp add: cnt unat_of_nat)
  have gate: "failed_count (cancel_attempts (take (?n mod 256) tds) ?w') = addresses_count ?w'"
  proof -
    have "length (take (?n mod 256) tds) = ?n mod 256"
      using len by simp
    then have "failed_count (cancel_attempts (take (?n mod 256) tds) ?w') = of_nat (?n mod 256)"
      using cancel_attempts_counts [of "take (?n mod 256) tds" ?w'] failed by simp
    then show ?thesis
      by (simp only: cnt word8_of_nat_mod)
  qed
  have big: "255 < ?n \<Longrightarrow> ?n mod 256 < ?n"
  proof -
    assume "255 < ?n"
    moreover have "?n mod 256 < 256" by simp
    ultimately show "?n mod 256 < ?n" by linarith
  qed
  show ?thesis
    using res u em len gate big by auto
qed

theorem addresses_count_truncated_witness:
  "\<exists>w'. s_on_host_resolved started 0 (replicate 257 address_one) 0 every_alloc_ok 0 = Inr w'
      \<and> unat (addresses_count w') = 1
      \<and> length (scheduled_tasks (emitted started w')) = 257
      \<and> failed_count (cancel_attempts (take 1 (scheduled_tasks (emitted started w'))) w')
          = addresses_count w'"
proof -
  have h1: "replicate 257 address_one \<noteq> []" by simp
  have h2: "\<forall>i < length (replicate 257 address_one). every_alloc_ok i = Alloc_ok"
    by (simp add: every_alloc_ok_def)
  have h3: "failed_count started = 0" by (simp add: started_def)
  show ?thesis
    using addresses_count_truncated [OF h1 h2 h3, of 0 0] by simp blast
qed

lemma refcount_events_quiet:
  "list_all is_refcount_event es \<Longrightarrow>
     filter is_setup es = [] \<and> filter is_shutdown es = [] \<and> filter is_record_failure es = []
     \<and> filter is_socket_call es = [] \<and> scheduled_tasks es = [] \<and> acquired_tasks es = []
     \<and> released_tasks es = []"
proof (induction es)
  case Nil
  then show ?case by simp
next
  case (Cons e es)
  then show ?case by (cases e) simp_all
qed

lemma release_emits:
  "\<exists>es. s_client_connection_args_release w = (emits es w)\<lparr>ref_count := ref_count w - 1\<rparr>
     \<and> list_all is_refcount_event es"
proof (cases "ref_count w - 1 = 0")
  case True
  let ?es = "[Bootstrap_release]
             @ (if host_name w \<noteq> None then [String_destroy] else [])
             @ (if use_tls (channel_data w) then [Tls_options_clean_up] else [])
             @ [Release_args]"
  have "s_client_connection_args_release w = (emits ?es w)\<lparr>ref_count := ref_count w - 1\<rparr>"
    using True by (simp add: s_client_connection_args_release_def emits_def)
  moreover have "list_all is_refcount_event ?es" by simp
  ultimately show ?thesis by blast
next
  case False
  then have "s_client_connection_args_release w = (emits [] w)\<lparr>ref_count := ref_count w - 1\<rparr>"
    by (simp add: s_client_connection_args_release_def emits_def)
  then show ?thesis by force
qed

lemma setup_callback_done:
  "setup_called w \<Longrightarrow> s_connection_args_setup_callback w e c = w"
  by (simp add: s_connection_args_setup_callback_def)

lemma setup_callback_emits:
  assumes "\<not> setup_called w"
  shows "\<exists>es. s_connection_args_setup_callback w e c
            = (emits (Setup_callback e c # es) w)
                \<lparr>setup_called := True,
                 shutdown_callback := (if e \<noteq> 0 then None else shutdown_callback w),
                 ref_count := ref_count w - 1\<rparr>
          \<and> list_all is_refcount_event es"
proof -
  let ?w3 = "(emits [Setup_callback e c] w)
               \<lparr>setup_called := True,
                shutdown_callback := (if e \<noteq> 0 then None else shutdown_callback w)\<rparr>"
  have step: "s_connection_args_setup_callback w e c = s_client_connection_args_release ?w3"
    using assms by (simp add: s_connection_args_setup_callback_def emit_def emits_def Let_def)
  obtain es where
    rel: "s_client_connection_args_release ?w3 = (emits es ?w3)\<lparr>ref_count := ref_count ?w3 - 1\<rparr>"
    and q: "list_all is_refcount_event es"
    using release_emits by blast
  have "s_connection_args_setup_callback w e c
          = (emits (Setup_callback e c # es) w)
              \<lparr>setup_called := True,
               shutdown_callback := (if e \<noteq> 0 then None else shutdown_callback w),
               ref_count := ref_count w - 1\<rparr>"
    unfolding step rel by (simp add: emits_def)
  then show ?thesis using q by blast
qed

lemma emit_fields [simp]:
  "trace (emit e w) = trace w @ [e]"
  "setup_called (emit e w) = setup_called w"
  "failed_count (emit e w) = failed_count w"
  "addresses_count (emit e w) = addresses_count w"
  "connection_chosen (emit e w) = connection_chosen w"
  "shutdown_callback (emit e w) = shutdown_callback w"
  "channel_data (emit e w) = channel_data w"
  "ref_count (emit e w) = ref_count w"
  "host_name (emit e w) = host_name w"
  "outgoing_options (emit e w) = outgoing_options w"
  "outgoing_port (emit e w) = outgoing_port w"
  by (simp_all add: emit_def)

lemma emits_more_fields [simp]:
  "setup_called (emits es w) = setup_called w"
  "failed_count (emits es w) = failed_count w"
  "addresses_count (emits es w) = addresses_count w"
  "connection_chosen (emits es w) = connection_chosen w"
  "shutdown_callback (emits es w) = shutdown_callback w"
  "channel_data (emits es w) = channel_data w"
  "ref_count (emits es w) = ref_count w"
  "host_name (emits es w) = host_name w"
  by (simp_all add: emits_def)

lemma release_fields [simp]:
  "setup_called (s_client_connection_args_release w) = setup_called w"
  "failed_count (s_client_connection_args_release w) = failed_count w"
  "addresses_count (s_client_connection_args_release w) = addresses_count w"
  "connection_chosen (s_client_connection_args_release w) = connection_chosen w"
  "shutdown_callback (s_client_connection_args_release w) = shutdown_callback w"
  "channel_data (s_client_connection_args_release w) = channel_data w"
  "outgoing_options (s_client_connection_args_release w) = outgoing_options w"
  "ref_count (s_client_connection_args_release w) = ref_count w - 1"
  by (simp_all add: s_client_connection_args_release_def emits_def Let_def)

lemma release_trace:
  "\<exists>es. trace (s_client_connection_args_release w) = trace w @ es \<and> list_all is_refcount_event es"
proof -
  obtain es where
    "s_client_connection_args_release w = (emits es w)\<lparr>ref_count := ref_count w - 1\<rparr>"
    and "list_all is_refcount_event es"
    using release_emits by blast
  then have "trace (s_client_connection_args_release w) = trace w @ es \<and> list_all is_refcount_event es"
    by (simp add: emits_def)
  then show ?thesis by blast
qed

lemma setup_callback_trace:
  assumes "\<not> setup_called w"
  shows "\<exists>es. trace (s_connection_args_setup_callback w e c) = trace w @ Setup_callback e c # es
          \<and> list_all is_refcount_event es"
proof -
  obtain es where
    "s_connection_args_setup_callback w e c
       = (emits (Setup_callback e c # es) w)
           \<lparr>setup_called := True,
            shutdown_callback := (if e \<noteq> 0 then None else shutdown_callback w),
            ref_count := ref_count w - 1\<rparr>"
    and "list_all is_refcount_event es"
    using setup_callback_emits [OF assms] by blast
  then have "trace (s_connection_args_setup_callback w e c) = trace w @ Setup_callback e c # es
             \<and> list_all is_refcount_event es"
    by (simp add: emits_def)
  then show ?thesis by blast
qed

lemma setup_callback_fields [simp]:
  "failed_count (s_connection_args_setup_callback w e c) = failed_count w"
  "addresses_count (s_connection_args_setup_callback w e c) = addresses_count w"
  "connection_chosen (s_connection_args_setup_callback w e c) = connection_chosen w"
  "channel_data (s_connection_args_setup_callback w e c) = channel_data w"
  "outgoing_options (s_connection_args_setup_callback w e c) = outgoing_options w"
  "setup_called (s_connection_args_setup_callback w e c) = True"
  "ref_count (s_connection_args_setup_callback w e c)
     = (if setup_called w then ref_count w else ref_count w - 1)"
  by (simp_all add: s_connection_args_setup_callback_def Let_def)

lemma emitted_append: "trace w' = trace w @ es \<Longrightarrow> emitted w w' = es"
  by (simp add: emitted_def)

lemma client_shutdown_delivers_setup:
  assumes "\<not> setup_called w"
  shows "filter is_setup (emitted w (s_on_client_channel_on_shutdown w chan error_code))
           = [Setup_callback (if error_code = 0 then AWS_ERROR_UNKNOWN else error_code) None]
         \<and> filter is_shutdown (emitted w (s_on_client_channel_on_shutdown w chan error_code)) = []"
proof -
  let ?e = "if error_code \<noteq> 0 then error_code else AWS_ERROR_UNKNOWN"
  let ?w1 = "s_connection_args_setup_callback w ?e None"
  let ?w2 = "emits [Channel_destroy chan, Socket_clean_up (socket (channel_data ?w1)),
                    Release_socket (socket (channel_data ?w1))] ?w1"
  have cb: "s_connection_args_shutdown_callback w error_code chan = ?w1"
    using assms by (simp add: s_connection_args_shutdown_callback_def)
  have run: "s_on_client_channel_on_shutdown w chan error_code = s_client_connection_args_release ?w2"
    by (simp only: s_on_client_channel_on_shutdown_def cb Let_def)
  obtain es where t1: "trace ?w1 = trace w @ Setup_callback ?e None # es"
    and es: "list_all is_refcount_event es"
    using setup_callback_trace [OF assms] by blast
  obtain rs where t3: "trace (s_client_connection_args_release ?w2) = trace ?w2 @ rs"
    and rs: "list_all is_refcount_event rs"
    using release_trace by blast
  have "trace (s_on_client_channel_on_shutdown w chan error_code)
          = trace w @ (Setup_callback ?e None # es
                       @ [Channel_destroy chan, Socket_clean_up (socket (channel_data ?w1)),
                          Release_socket (socket (channel_data ?w1))] @ rs)"
    unfolding run t3 by (simp add: t1)
  then have "emitted w (s_on_client_channel_on_shutdown w chan error_code)
          = Setup_callback ?e None # es
              @ [Channel_destroy chan, Socket_clean_up (socket (channel_data ?w1)),
                 Release_socket (socket (channel_data ?w1))] @ rs"
    by (rule emitted_append)
  then show ?thesis
    using refcount_events_quiet [OF es] refcount_events_quiet [OF rs] by simp
qed

lemma srv_emitted_append: "srv_trace w' = srv_trace w @ es \<Longrightarrow> srv_emitted w w' = es"
  by (simp add: srv_emitted_def)

lemma srv_emit_fields [simp]:
  "srv_trace (srv_emit e w) = srv_trace w @ [e]"
  "srv_ref_count (srv_emit e w) = srv_ref_count w"
  "destroy_callback (srv_emit e w) = destroy_callback w"
  "srv_use_tls (srv_emit e w) = srv_use_tls w"
  "srv_on_protocol_negotiated (srv_emit e w) = srv_on_protocol_negotiated w"
  "srv_user_on_negotiation_result (srv_emit e w) = srv_user_on_negotiation_result w"
  by (simp_all add: srv_emit_def)

lemma srv_emits_fields [simp]:
  "srv_trace (srv_emits es w) = srv_trace w @ es"
  "srv_ref_count (srv_emits es w) = srv_ref_count w"
  "destroy_callback (srv_emits es w) = destroy_callback w"
  "srv_use_tls (srv_emits es w) = srv_use_tls w"
  "srv_on_protocol_negotiated (srv_emits es w) = srv_on_protocol_negotiated w"
  "srv_user_on_negotiation_result (srv_emits es w) = srv_user_on_negotiation_result w"
  by (simp_all add: srv_emits_def)

lemma srv_release_trace:
  "srv_trace (s_server_connection_args_release w)
     = srv_trace w
       @ (if srv_ref_count w = 1
          then (if destroy_callback w \<noteq> None then [Destroy_callback] else [])
               @ [Bootstrap_release]
               @ (if srv_use_tls w then [Tls_options_clean_up] else [])
               @ [Release_args]
          else [])"
  by (simp add: s_server_connection_args_release_def srv_emits_def Let_def)

lemma srv_release_fields [simp]:
  "srv_ref_count (s_server_connection_args_release w) = srv_ref_count w - 1"
  "destroy_callback (s_server_connection_args_release w) = destroy_callback w"
  "srv_use_tls (s_server_connection_args_release w) = srv_use_tls w"
  by (simp_all add: s_server_connection_args_release_def srv_emits_def Let_def)

lemma srv_release_quiet:
  "\<exists>es. srv_trace (s_server_connection_args_release w) = srv_trace w @ es
     \<and> filter is_incoming es = [] \<and> filter is_server_shutdown es = []"
  by (simp add: srv_release_trace)

lemma server_shutdown_delivers_incoming:
  assumes "\<not> incoming_called cd"
  shows "filter is_incoming
           (srv_emitted w (fst (s_on_server_channel_on_shutdown w cd chan error_code)))
           = [Incoming_callback (if error_code = 0 then AWS_ERROR_UNKNOWN else error_code) None]
         \<and> filter is_server_shutdown
             (srv_emitted w (fst (s_on_server_channel_on_shutdown w cd chan error_code))) = []"
proof -
  let ?e = "if error_code \<noteq> 0 then error_code else AWS_ERROR_UNKNOWN"
  let ?w2 = "srv_emits [Incoming_callback ?e None, Channel_destroy chan,
                        Socket_clean_up (srv_socket cd), Release_socket (srv_socket cd)] w"
  have run: "fst (s_on_server_channel_on_shutdown w cd chan error_code)
               = srv_emit Release_channel_data (s_server_connection_args_release ?w2)"
    using assms
    by (simp add: s_on_server_channel_on_shutdown_def s_server_incoming_callback_def
          srv_emit_def srv_emits_def Let_def)
  obtain rs where t: "srv_trace (s_server_connection_args_release ?w2) = srv_trace ?w2 @ rs"
    and rs: "filter is_incoming rs = []" "filter is_server_shutdown rs = []"
    using srv_release_quiet by blast
  have "srv_trace (fst (s_on_server_channel_on_shutdown w cd chan error_code))
          = srv_trace w @ ([Incoming_callback ?e None, Channel_destroy chan,
                            Socket_clean_up (srv_socket cd), Release_socket (srv_socket cd)]
                           @ rs @ [Release_channel_data])"
    unfolding run by (simp add: t)
  then have "srv_emitted w (fst (s_on_server_channel_on_shutdown w cd chan error_code))
          = [Incoming_callback ?e None, Channel_destroy chan,
             Socket_clean_up (srv_socket cd), Release_socket (srv_socket cd)]
            @ rs @ [Release_channel_data]"
    by (rule srv_emitted_append)
  then show ?thesis using rs by simp
qed

section \<open>A shutdown before the setup callback\<close>

text \<open>
  Claim C6. When a client channel shuts down and the setup callback has not been called,
  \<^verbatim>\<open>s_on_client_channel_on_shutdown\<close> invokes the setup callback exactly once, with a
  null channel and the error code of the shutdown, or with \<open>AWS_ERROR_UNKNOWN\<close> when
  that code is zero, and does not invoke the shutdown callback. When a server channel shuts
  down and the incoming callback has not been called,
  \<^verbatim>\<open>s_on_server_channel_on_shutdown\<close> does the same with the incoming callback. A
  nonzero code is passed on as it is.
\<close>

theorem shutdown_before_setup:
  "(\<not> setup_called w \<longrightarrow>
      filter is_setup (emitted w (s_on_client_channel_on_shutdown w chan error_code))
        = [Setup_callback (if error_code = 0 then AWS_ERROR_UNKNOWN else error_code) None]
      \<and> filter is_shutdown (emitted w (s_on_client_channel_on_shutdown w chan error_code)) = [])
   \<and> (\<not> incoming_called cd \<longrightarrow>
      filter is_incoming
          (srv_emitted sw (fst (s_on_server_channel_on_shutdown sw cd chan error_code)))
        = [Incoming_callback (if error_code = 0 then AWS_ERROR_UNKNOWN else error_code) None]
      \<and> filter is_server_shutdown
          (srv_emitted sw (fst (s_on_server_channel_on_shutdown sw cd chan error_code))) = [])"
  using client_shutdown_delivers_setup server_shutdown_delivers_incoming by blast

theorem shutdown_before_setup_witness:
  "\<not> setup_called negotiating \<and> \<not> incoming_called pending_channel
   \<and> filter is_setup (emitted negotiating (s_on_client_channel_on_shutdown negotiating (Some 5) 0))
       = [Setup_callback AWS_ERROR_UNKNOWN None]
   \<and> filter is_setup (emitted negotiating (s_on_client_channel_on_shutdown negotiating (Some 5) 7))
       = [Setup_callback 7 None]
   \<and> filter is_incoming
        (srv_emitted listening (fst (s_on_server_channel_on_shutdown listening pending_channel (Some 5) 0)))
       = [Incoming_callback AWS_ERROR_UNKNOWN None]
   \<and> filter is_incoming
        (srv_emitted listening (fst (s_on_server_channel_on_shutdown listening pending_channel (Some 5) 7)))
       = [Incoming_callback 7 None]"
proof -
  have h1: "\<not> setup_called negotiating" by (simp add: negotiating_def)
  have h2: "\<not> incoming_called pending_channel" by (simp add: pending_channel_def)
  show ?thesis
    using h1 h2
      shutdown_before_setup [of negotiating "Some 5" 0 pending_channel listening]
      shutdown_before_setup [of negotiating "Some 5" 7 pending_channel listening]
    by simp
qed

section \<open>The result of the client's TLS negotiation\<close>



section \<open>Cancelled connection tasks\<close>

lemma attempt_cleanup_fields [simp]:
  "trace (attempt_cleanup_task td w)
     = trace w @ [Host_address_clean_up (task td), Release_task_data (task td)]"
  "failed_count (attempt_cleanup_task td w) = failed_count w"
  "addresses_count (attempt_cleanup_task td w) = addresses_count w"
  "setup_called (attempt_cleanup_task td w) = setup_called w"
  "ref_count (attempt_cleanup_task td w) = ref_count w"
  by (simp_all add: attempt_cleanup_task_def)





section \<open>TLS needs a stream socket\<close>

text \<open>
  Claim C8. With socket options whose type is not \<open>AWS_SOCKET_STREAM\<close>,
  \<^verbatim>\<open>aws_client_bootstrap_new_tls_socket_channel\<close> returns \<^verbatim>\<open>AWS_OP_ERR\<close> and
  \<^verbatim>\<open>aws_server_bootstrap_new_tls_socket_listener\<close> returns \<^verbatim>\<open>NULL\<close>, both with
  \<open>AWS_IO_SOCKET_INVALID_OPTIONS\<close> raised, and neither has allocated a connection state
  (the world of the result is \<open>None\<close>, so no call at all was made).
\<close>

theorem tls_requires_stream:
  "type opts \<noteq> AWS_SOCKET_STREAM \<Longrightarrow>
     aws_client_bootstrap_new_tls_socket_channel True alpn hostname port opts co cb env
       = Inr (AWS_OP_ERR AWS_IO_SOCKET_INVALID_OPTIONS, None)
     \<and> aws_server_bootstrap_new_tls_socket_listener True alpn opts co dcb lenv
       = Inr (No_listener AWS_IO_SOCKET_INVALID_OPTIONS None)"
  by (simp add: aws_client_bootstrap_new_tls_socket_channel_def
        aws_server_bootstrap_new_tls_socket_listener_def)

theorem tls_requires_stream_witness:
  "type datagram_options \<noteq> AWS_SOCKET_STREAM
   \<and> aws_client_bootstrap_new_tls_socket_channel True None ''example.com'' 443 datagram_options
       \<lparr>on_negotiation_result = None\<rparr> (Some 1) cooperative
       = Inr (AWS_OP_ERR AWS_IO_SOCKET_INVALID_OPTIONS, None)
   \<and> aws_server_bootstrap_new_tls_socket_listener True None datagram_options
       \<lparr>on_negotiation_result = None\<rparr> (Some 3) cooperative_listener
       = Inr (No_listener AWS_IO_SOCKET_INVALID_OPTIONS None)"
proof -
  have h: "type datagram_options \<noteq> AWS_SOCKET_STREAM" by (simp add: datagram_options_def)
  show ?thesis
    using h tls_requires_stream [OF h] by simp
qed

section \<open>A connection attempt that does not win\<close>

lemma setup_callback_cases:
  "\<exists>es. trace (s_connection_args_setup_callback w e c)
            = trace w @ (if setup_called w then [] else [Setup_callback e c]) @ es
     \<and> list_all is_refcount_event es"
proof (cases "setup_called w")
  case True
  then have "trace (s_connection_args_setup_callback w e c) = trace w @ [] @ []"
    by (simp add: setup_callback_done)
  then show ?thesis using True by force
next
  case False
  then show ?thesis using setup_callback_trace [OF False, of e c] by simp
qed

lemma established_not_winning:
  assumes "error_code \<noteq> 0 \<or> connection_chosen w"
  shows "\<exists>es rs.
     trace (s_on_client_connection_established w sock remote_address error_code address_ok new_channel)
       = trace w
         @ (if domain (outgoing_options w) \<noteq> AWS_SOCKET_LOCAL \<and> error_code \<noteq> 0 \<and> address_ok
            then [Record_connection_failure (failed_address w remote_address)] else [])
         @ [Socket_close (Some sock), Socket_clean_up (Some sock), Release_socket (Some sock)]
         @ (if (if error_code \<noteq> 0 then failed_count w + 1 else failed_count w) = addresses_count w
               \<and> \<not> setup_called w
            then [Setup_callback error_code None] else [])
         @ es @ rs
     \<and> list_all is_refcount_event es \<and> list_all is_refcount_event rs"
proof -
  let ?w1 = "if error_code \<noteq> 0 then w\<lparr>failed_count := failed_count w + 1\<rparr> else w"
  let ?rec = "if domain (outgoing_options w) \<noteq> AWS_SOCKET_LOCAL \<and> error_code \<noteq> 0 \<and> address_ok
              then [Record_connection_failure (failed_address w remote_address)] else []"
  let ?w3 = "emits (?rec @ [Socket_close (Some sock), Socket_clean_up (Some sock),
                            Release_socket (Some sock)]) ?w1"
  let ?gate = "failed_count ?w3 = addresses_count ?w3"
  let ?w4 = "if ?gate then s_connection_args_setup_callback ?w3 error_code None else ?w3"
  have run: "s_on_client_connection_established w sock remote_address error_code address_ok new_channel
               = s_client_connection_args_release ?w4"
    using assms
    by (simp add: s_on_client_connection_established_def failed_address_def emit_def emits_def
          Let_def)
  have t3: "trace ?w3 = trace w @ ?rec @ [Socket_close (Some sock), Socket_clean_up (Some sock),
                                           Release_socket (Some sock)]"
    by simp
  have g: "?gate \<longleftrightarrow> (if error_code \<noteq> 0 then failed_count w + 1 else failed_count w) = addresses_count w"
    by simp
  have s3: "setup_called ?w3 = setup_called w" by simp
  obtain es where t4: "trace ?w4 = trace ?w3
                         @ (if ?gate \<and> \<not> setup_called w then [Setup_callback error_code None] else [])
                         @ es"
    and es: "list_all is_refcount_event es"
  proof (cases ?gate)
    case True
    obtain es where "trace (s_connection_args_setup_callback ?w3 error_code None)
                       = trace ?w3 @ (if setup_called ?w3 then [] else [Setup_callback error_code None]) @ es"
      and "list_all is_refcount_event es"
      using setup_callback_cases by blast
    then have "trace ?w4 = trace ?w3
                 @ (if ?gate \<and> \<not> setup_called w then [Setup_callback error_code None] else [])
                 @ es"
      using True s3 by (simp only: if_True) simp
    then show ?thesis using that \<open>list_all is_refcount_event es\<close> by blast
  next
    case False
    then have "trace ?w4 = trace ?w3
                 @ (if ?gate \<and> \<not> setup_called w then [Setup_callback error_code None] else [])
                 @ []"
      by (simp only: if_False) simp
    then show ?thesis using that [of "[]"] by simp
  qed
  obtain rs where t5: "trace (s_client_connection_args_release ?w4) = trace ?w4 @ rs"
    and rs: "list_all is_refcount_event rs"
    using release_trace by blast
  have "trace (s_on_client_connection_established w sock remote_address error_code address_ok new_channel)
          = trace (s_client_connection_args_release ?w4)"
    by (simp only: run)
  also have "\<dots> = trace ?w4 @ rs"
    by (rule t5)
  also have "\<dots> = (trace ?w3
                       @ (if ?gate \<and> \<not> setup_called w then [Setup_callback error_code None] else [])
                       @ es) @ rs"
    by (simp only: t4)
  also have "\<dots> = trace w @ ?rec
            @ [Socket_close (Some sock), Socket_clean_up (Some sock), Release_socket (Some sock)]
            @ (if (if error_code \<noteq> 0 then failed_count w + 1 else failed_count w) = addresses_count w
                  \<and> \<not> setup_called w
               then [Setup_callback error_code None] else [])
            @ es @ rs"
    by simp
  finally show ?thesis using es rs by blast
qed

lemma established_not_winning_fields:
  assumes "error_code \<noteq> 0 \<or> connection_chosen w"
  shows "failed_count (s_on_client_connection_established w sock remote_address error_code address_ok new_channel)
           = (if error_code \<noteq> 0 then failed_count w + 1 else failed_count w)"
    and "addresses_count (s_on_client_connection_established w sock remote_address error_code address_ok new_channel)
           = addresses_count w"
    and "ref_count (s_on_client_connection_established w sock remote_address error_code address_ok new_channel)
           = ref_count w - 1
             - (if (if error_code \<noteq> 0 then failed_count w + 1 else failed_count w) = addresses_count w
                   \<and> \<not> setup_called w then 1 else 0)"
  using assms
  by (auto simp add: s_on_client_connection_established_def Let_def)

lemmas run_defs = race_started_def task_one_def task_two_def started_def address_one_def
  address_two_def every_alloc_ok_def stream_options_def new_task_data_def
  s_on_host_resolved_def s_attempt_connection_def attempt_cleanup_task_def
  attempt_task_cancelled_def s_on_client_connection_established_def
  s_client_connection_args_acquire_def s_client_connection_args_release_def
  s_connection_args_setup_callback_def emit_def emits_def Let_def

lemma winner_chosen_facts:
  "client_run started
     (race_started @ [Connection_established 10 ''10.0.0.1'' 0 True (Some 5)]) = Inr winner_chosen"
  "connection_chosen winner_chosen" "\<not> setup_called winner_chosen"
  "failed_count winner_chosen = 0" "addresses_count winner_chosen = 2"
  "ref_count winner_chosen = 3"
  "domain (outgoing_options winner_chosen) = AWS_SOCKET_IPV4"
  "host_name winner_chosen = Some ''example.com''"
  by (simp_all add: winner_chosen_def run_defs)

text \<open>
  Claim C2, as amended. When a connect reports with a nonzero error, or after a connection
  has been chosen, \<^verbatim>\<open>s_on_client_connection_established\<close>
  \<^item> increments \<open>failed_count\<close> if and only if the error is nonzero (a late success
    after the winner is not counted as a failure);
  \<^item> reports the address to the resolver exactly when the domain is not local, the error
    is nonzero and the address string could be allocated;
  \<^item> closes, cleans up and frees the socket;
  \<^item> invokes the setup callback, with the error and a null channel, exactly when
    \<open>failed_count\<close> then equals \<open>addresses_count\<close> and the setup callback is still due;
  \<^item> releases one reference on the connection state, besides the one that the delivery of
    the setup callback releases.
\<close>

theorem connection_failed_or_late:
  assumes "error_code \<noteq> 0 \<or> connection_chosen w"
  shows "let w' = s_on_client_connection_established w sock remote_address error_code address_ok
                    new_channel;
             failed = (if error_code \<noteq> 0 then failed_count w + 1 else failed_count w);
             delivered = (failed = addresses_count w \<and> \<not> setup_called w)
         in failed_count w' = failed
          \<and> filter is_record_failure (emitted w w')
              = (if domain (outgoing_options w) \<noteq> AWS_SOCKET_LOCAL \<and> error_code \<noteq> 0 \<and> address_ok
                 then [Record_connection_failure (failed_address w remote_address)] else [])
          \<and> filter is_socket_call (emitted w w')
              = [Socket_close (Some sock), Socket_clean_up (Some sock), Release_socket (Some sock)]
          \<and> filter is_setup (emitted w w')
              = (if delivered then [Setup_callback error_code None] else [])
          \<and> ref_count w' = ref_count w - 1 - (if delivered then 1 else 0)"
proof -
  let ?w' = "s_on_client_connection_established w sock remote_address error_code address_ok
               new_channel"
  let ?rec = "if domain (outgoing_options w) \<noteq> AWS_SOCKET_LOCAL \<and> error_code \<noteq> 0 \<and> address_ok
              then [Record_connection_failure (failed_address w remote_address)] else []"
  let ?set = "if (if error_code \<noteq> 0 then failed_count w + 1 else failed_count w) = addresses_count w
                 \<and> \<not> setup_called w
              then [Setup_callback error_code None] else []"
  obtain es rs where
    tr: "trace ?w' = trace w
           @ ?rec @ [Socket_close (Some sock), Socket_clean_up (Some sock), Release_socket (Some sock)]
           @ ?set @ es @ rs"
    and es: "list_all is_refcount_event es" and rs: "list_all is_refcount_event rs"
    using established_not_winning [OF assms] by blast
  have em: "emitted w ?w'
          = ?rec @ [Socket_close (Some sock), Socket_clean_up (Some sock), Release_socket (Some sock)]
            @ ?set @ es @ rs"
    using tr by (rule emitted_append)
  have "filter is_record_failure (emitted w ?w') = ?rec"
    "filter is_socket_call (emitted w ?w')
       = [Socket_close (Some sock), Socket_clean_up (Some sock), Release_socket (Some sock)]"
    "filter is_setup (emitted w ?w') = ?set"
    unfolding em using refcount_events_quiet [OF es] refcount_events_quiet [OF rs]
    by simp_all
  then show ?thesis
    using established_not_winning_fields(1,3) [OF assms] by (simp add: Let_def)
qed

theorem connection_failed_or_late_witness:
  "connection_chosen winner_chosen
   \<and> failed_count (s_on_client_connection_established winner_chosen 11 ''10.0.0.2'' 111 True None) = 1
   \<and> filter is_record_failure
        (emitted winner_chosen
           (s_on_client_connection_established winner_chosen 11 ''10.0.0.2'' 111 True None))
       = [Record_connection_failure (failed_address winner_chosen ''10.0.0.2'')]
   \<and> filter is_socket_call
        (emitted winner_chosen
           (s_on_client_connection_established winner_chosen 11 ''10.0.0.2'' 111 True None))
       = [Socket_close (Some 11), Socket_clean_up (Some 11), Release_socket (Some 11)]
   \<and> filter is_setup
        (emitted winner_chosen
           (s_on_client_connection_established winner_chosen 11 ''10.0.0.2'' 111 True None))
       = []
   \<and> ref_count (s_on_client_connection_established winner_chosen 11 ''10.0.0.2'' 111 True None) = 2"
proof -
  have h: "111 \<noteq> (0::int) \<or> connection_chosen winner_chosen"
    by (simp add: winner_chosen_facts)
  show ?thesis
    using connection_failed_or_late [OF h, of 11 "''10.0.0.2''" True None]
    by (simp add: winner_chosen_facts Let_def)
qed

text \<open>
  Claim C2 as stated fails: with a winner chosen, a second connect that succeeds takes the
  same branch and \<open>failed_count\<close> stays as it is.
\<close>

theorem late_success_not_counted:
  "connection_chosen winner_chosen
   \<and> failed_count (s_on_client_connection_established winner_chosen 11 ''10.0.0.2'' 0 True None)
       \<noteq> failed_count winner_chosen + 1"
proof -
  have h: "(0::int) \<noteq> 0 \<or> connection_chosen winner_chosen"
    by (simp add: winner_chosen_facts)
  show ?thesis
    using established_not_winning_fields(1) [OF h, of 11 "''10.0.0.2''" True None]
    by (simp add: winner_chosen_facts)
qed

section \<open>Destroying a listener\<close>

lemma srv_acquire_fields [simp]:
  "srv_ref_count (s_server_connection_args_acquire w) = srv_ref_count w + 1"
  "destroy_callback (s_server_connection_args_acquire w) = destroy_callback w"
  "srv_use_tls (s_server_connection_args_acquire w) = srv_use_tls w"
  "srv_user_on_negotiation_result (s_server_connection_args_acquire w)
     = srv_user_on_negotiation_result w"
  "srv_on_protocol_negotiated (s_server_connection_args_acquire w)
     = srv_on_protocol_negotiated w"
  by (simp_all add: s_server_connection_args_acquire_def srv_emit_def Let_def)

lemma srv_acquire_trace:
  "srv_trace (s_server_connection_args_acquire w)
     = srv_trace w @ (if srv_ref_count w = 0 then [Bootstrap_acquire] else [])"
  by (simp add: s_server_connection_args_acquire_def Let_def)

lemma listener_destroy_task_trace:
  "srv_trace (s_listener_destroy_task w)
     = srv_trace w @ [Listener_stop_accept, Listener_clean_up]
       @ (if srv_ref_count w = 1
          then (if destroy_callback w \<noteq> None then [Destroy_callback] else [])
               @ [Bootstrap_release]
               @ (if srv_use_tls w then [Tls_options_clean_up] else [])
               @ [Release_args]
          else [])"
  by (simp add: s_listener_destroy_task_def srv_release_trace)

lemma listener_destroy_task_fields [simp]:
  "srv_ref_count (s_listener_destroy_task w) = srv_ref_count w - 1"
  "destroy_callback (s_listener_destroy_task w) = destroy_callback w"
  by (simp_all add: s_listener_destroy_task_def)

lemma container_of_listener_pointer: "AWS_CONTAINER_OF (listener_pointer a) = a"
  by (simp add: AWS_CONTAINER_OF_def listener_pointer_def)

lemma destroy_socket_listener_schedules:
  assumes "mem a = Some w" and "event_loop (listener w) = Some l"
  shows "aws_server_bootstrap_destroy_socket_listener mem (listener_pointer a)
           = Some (AWS_OP_SUCCESS, mem(a \<mapsto> srv_emit (Schedule_listener_destroy_task l a) w))"
  using assms
  by (simp add: aws_server_bootstrap_destroy_socket_listener_def container_of_listener_pointer)

lemma new_socket_listener_pointer:
  assumes "s_server_new_socket_listener alpn connection_options destroy_cb env = Listener p w"
  shows "p = listener_pointer (listener_args_address env)"
  using assms
  by (simp add: s_server_new_socket_listener_def Let_def split: if_splits)

lemma word_pred_zero: "c - 1 = 0 \<longleftrightarrow> c = (1 :: 64 word)"
  by auto

lemma reference_step_count:
  "srv_ref_count (reference_step r w)
     = (if r = Acquire_ref then srv_ref_count w + 1 else srv_ref_count w - 1)"
  by (cases r) simp_all

lemma reference_step_trace:
  "\<exists>es. srv_trace (reference_step r w) = srv_trace w @ es
     \<and> destroy_callback (reference_step r w) = destroy_callback w
     \<and> (if r \<noteq> Acquire_ref \<and> srv_ref_count w = 1
        then Release_args \<in> set es
             \<and> filter is_destroy es
                 = (if destroy_callback w \<noteq> None then [Destroy_callback] else [])
        else Release_args \<notin> set es \<and> filter is_destroy es = [])"
proof (cases r)
  case Acquire_ref
  then show ?thesis
    by (simp add: srv_acquire_trace)
next
  case Release_ref
  then show ?thesis
    by (simp add: srv_release_trace)
next
  case Run_listener_destroy_task
  then show ?thesis
    by (simp add: listener_destroy_task_trace)
qed

lemma reference_run_freed: "freed w \<Longrightarrow> reference_run rs w = Some w' \<Longrightarrow> rs = [] \<and> w' = w"
  by (cases rs) simp_all

lemma reference_run_destroy_once:
  assumes "\<not> freed w" and "reference_run rs w = Some w'"
  shows "\<exists>es. srv_trace w' = srv_trace w @ es
           \<and> filter is_destroy es
               = (if freed w' \<and> destroy_callback w \<noteq> None then [Destroy_callback] else [])
           \<and> (freed w' \<longleftrightarrow> rs \<noteq> [] \<and> last rs \<noteq> Acquire_ref \<and> srv_ref_count w' = 0)"
  using assms
proof (induction rs arbitrary: w)
  case Nil
  then have "srv_trace w' = srv_trace w @ []" "w' = w" by simp_all
  then show ?case using Nil.prems by force
next
  case (Cons r rs)
  let ?w1 = "reference_step r w"
  have run: "reference_run rs ?w1 = Some w'"
    using Cons.prems by simp
  obtain es1 where t1: "srv_trace ?w1 = srv_trace w @ es1"
    and cb: "destroy_callback ?w1 = destroy_callback w"
    and alt: "if r \<noteq> Acquire_ref \<and> srv_ref_count w = 1
              then Release_args \<in> set es1
                   \<and> filter is_destroy es1
                       = (if destroy_callback w \<noteq> None then [Destroy_callback] else [])
              else Release_args \<notin> set es1 \<and> filter is_destroy es1 = []"
    using reference_step_trace [of r w] by blast
  have cnt: "srv_ref_count ?w1
               = (if r = Acquire_ref then srv_ref_count w + 1 else srv_ref_count w - 1)"
    by (rule reference_step_count)
  have old: "Release_args \<notin> set (srv_trace w)"
    using Cons.prems(1) by (simp add: freed_def)
  have fr1: "freed ?w1 \<longleftrightarrow> r \<noteq> Acquire_ref \<and> srv_ref_count w = 1"
  proof (cases "r \<noteq> Acquire_ref \<and> srv_ref_count w = 1")
    case True
    with alt have "Release_args \<in> set es1" by simp
    then show ?thesis using True t1 by (simp add: freed_def)
  next
    case False
    with alt have "Release_args \<notin> set es1" by simp
    then show ?thesis using False t1 old by (simp add: freed_def)
  qed
  show ?case
  proof (cases "r \<noteq> Acquire_ref \<and> srv_ref_count w = 1")
    case True
    with alt have d: "filter is_destroy es1
                        = (if destroy_callback w \<noteq> None then [Destroy_callback] else [])"
      by simp
    have dead: "freed ?w1" using fr1 True by simp
    have zero: "srv_ref_count ?w1 = 0" using cnt True by simp
    from reference_run_freed [OF dead run] have nil: "rs = []" and same: "w' = ?w1"
      by simp_all
    have A: "srv_trace w' = srv_trace w @ es1"
      unfolding same by (rule t1)
    have B: "filter is_destroy es1
               = (if freed w' \<and> destroy_callback w \<noteq> None then [Destroy_callback] else [])"
      unfolding d same using dead by simp
    have C: "freed w' \<longleftrightarrow> r # rs \<noteq> [] \<and> last (r # rs) \<noteq> Acquire_ref \<and> srv_ref_count w' = 0"
      unfolding same nil using dead zero True by simp
    show ?thesis
      by (rule exI [of _ es1]) (intro conjI A B C)
  next
    case False
    with alt have d: "filter is_destroy es1 = []"
      by simp
    have live: "\<not> freed ?w1" using fr1 False by simp
    have nz: "r \<noteq> Acquire_ref \<longrightarrow> srv_ref_count ?w1 \<noteq> 0"
      using cnt False by (auto simp add: word_pred_zero)
    from Cons.IH [OF live run] obtain es where
      ih: "srv_trace w' = srv_trace ?w1 @ es
           \<and> filter is_destroy es
               = (if freed w' \<and> destroy_callback ?w1 \<noteq> None then [Destroy_callback] else [])
           \<and> (freed w' \<longleftrightarrow> rs \<noteq> [] \<and> last rs \<noteq> Acquire_ref \<and> srv_ref_count w' = 0)" ..
    note t = ih [THEN conjunct1]
    note e = ih [THEN conjunct2, THEN conjunct1]
    note f = ih [THEN conjunct2, THEN conjunct2]
    have A: "srv_trace w' = srv_trace w @ (es1 @ es)"
      by (simp add: t t1)
    have B: "filter is_destroy (es1 @ es)
               = (if freed w' \<and> destroy_callback w \<noteq> None then [Destroy_callback] else [])"
      unfolding filter_append d e cb by simp
    have C: "freed w' \<longleftrightarrow> r # rs \<noteq> [] \<and> last (r # rs) \<noteq> Acquire_ref \<and> srv_ref_count w' = 0"
    proof (cases "rs = []")
      case True
      then have same: "w' = ?w1" using run by simp
      show ?thesis
        unfolding same True using live nz by auto
    next
      case False
      then show ?thesis using f by simp
    qed
    show ?thesis
      by (rule exI [of _ "es1 @ es"]) (intro conjI A B C)
  qed
qed

lemma reference_run_no_wrap:
  assumes "\<not> freed w" and "reference_run rs w = Some w'" and "srv_ref_count w \<noteq> 0"
    and "unat (srv_ref_count w) + length (filter (\<lambda>r. r = Acquire_ref) rs) < 2 ^ 64"
  shows "freed w' \<longleftrightarrow> srv_ref_count w' = 0"
  using assms
proof (induction rs arbitrary: w)
  case Nil
  then show ?case by simp
next
  case (Cons r rs)
  let ?w1 = "reference_step r w"
  have run: "reference_run rs ?w1 = Some w'"
    using Cons.prems by simp
  have one: "reference_run [r] w = Some ?w1"
    using Cons.prems(1) by simp
  from reference_run_destroy_once [OF Cons.prems(1) one] obtain es1 where
    o: "srv_trace ?w1 = srv_trace w @ es1
        \<and> filter is_destroy es1
            = (if freed ?w1 \<and> destroy_callback w \<noteq> None then [Destroy_callback] else [])
        \<and> (freed ?w1 \<longleftrightarrow> [r] \<noteq> [] \<and> last [r] \<noteq> Acquire_ref \<and> srv_ref_count ?w1 = 0)" ..
  have fr1: "freed ?w1 \<longleftrightarrow> r \<noteq> Acquire_ref \<and> srv_ref_count ?w1 = 0"
    using o [THEN conjunct2, THEN conjunct2] by simp
  have cnt: "srv_ref_count ?w1
               = (if r = Acquire_ref then srv_ref_count w + 1 else srv_ref_count w - 1)"
    by (rule reference_step_count)
  show ?case
  proof (cases "freed ?w1")
    case True
    from reference_run_freed [OF True run] have same: "w' = ?w1" by simp
    show ?thesis
      unfolding same using True fr1 by simp
  next
    case False
    have bound: "unat (srv_ref_count w) + length (filter (\<lambda>r. r = Acquire_ref) (r # rs)) < 2 ^ 64"
      using Cons.prems(4) .
    have suc: "unat (srv_ref_count w + 1) = unat (srv_ref_count w) + 1" if "r = Acquire_ref"
    proof -
      have "unat (srv_ref_count w) + unat (1 :: 64 word) < 2 ^ LENGTH(64)"
        using bound that by simp
      then have "unat (srv_ref_count w + 1) = unat (srv_ref_count w) + unat (1 :: 64 word)"
        by (rule unat_add_lem [THEN iffD1])
      then show ?thesis by simp
    qed
    have nz: "srv_ref_count ?w1 \<noteq> 0"
    proof (cases "r = Acquire_ref")
      case True
      have "unat (srv_ref_count w + 1) \<noteq> 0"
        using suc [OF True] by simp
      then have "srv_ref_count w + 1 \<noteq> 0"
        by auto
      then show ?thesis using cnt True by simp
    next
      case neq: False
      then show ?thesis using fr1 False by simp
    qed
    have le: "unat (srv_ref_count ?w1) + length (filter (\<lambda>r. r = Acquire_ref) rs) < 2 ^ 64"
    proof (cases "r = Acquire_ref")
      case True
      then show ?thesis using cnt suc [OF True] bound by simp
    next
      case neq: False
      have "unat (srv_ref_count w - 1) \<le> unat (srv_ref_count w)"
        using Cons.prems(3) by (simp add: unat_minus_one)
      then show ?thesis using cnt neq bound by simp
    qed
    from Cons.IH [OF False run nz le] show ?thesis .
  qed
qed

text \<open>
  Claim C7. A call of \<^verbatim>\<open>aws_server_bootstrap_destroy_socket_listener\<close> with the pointer to
  the listener field of the server state at the address \<open>a\<close>, a listener that is assigned
  to the event loop \<open>l\<close>, returns \<^verbatim>\<open>AWS_OP_SUCCESS\<close>; its one effect is that the listener
  destroy task is scheduled on \<open>l\<close> with the state at \<open>a\<close>, the address recovered by
  the field offset, as its argument. The pointer a listener constructor returns is such a
  pointer: the field offset takes it back to the address of the state it allocated. When
  the task runs it stops accepting, cleans up the listener socket and then releases one
  reference, and it does nothing else: the count goes down by one, and the calls of the
  release that frees the state follow exactly when the count was one, the destroy callback
  first among them if one was supplied. Over any sequence of acquisitions, releases and
  runs of the task on a state that is not freed, the destroy callback fires once if the
  state ends up freed and a callback was supplied, and not at all otherwise; and the state
  ends up freed exactly when the last operation was a release that took the count to
  zero. As long as the count starts above zero and the acquisitions do not wrap it around,
  the state is freed exactly when its count is zero.
\<close>

theorem listener_destruction:
  "(mem a = Some w \<and> event_loop (listener w) = Some l \<longrightarrow>
      aws_server_bootstrap_destroy_socket_listener mem (listener_pointer a)
        = Some (AWS_OP_SUCCESS, mem(a \<mapsto> srv_emit (Schedule_listener_destroy_task l a) w)))
   \<and> (s_server_new_socket_listener alpn connection_options destroy_cb env = Listener p w0 \<longrightarrow>
        AWS_CONTAINER_OF p = listener_args_address env)
   \<and> srv_emitted w (s_listener_destroy_task w)
       = [Listener_stop_accept, Listener_clean_up]
         @ (if srv_ref_count w = 1
            then (if destroy_callback w \<noteq> None then [Destroy_callback] else [])
                 @ [Bootstrap_release]
                 @ (if srv_use_tls w then [Tls_options_clean_up] else [])
                 @ [Release_args]
            else [])
   \<and> srv_ref_count (s_listener_destroy_task w) = srv_ref_count w - 1
   \<and> (\<not> freed w \<and> reference_run rs w = Some w' \<longrightarrow>
        filter is_destroy (srv_emitted w w')
          = (if freed w' \<and> destroy_callback w \<noteq> None then [Destroy_callback] else [])
        \<and> (freed w' \<longleftrightarrow> rs \<noteq> [] \<and> last rs \<noteq> Acquire_ref \<and> srv_ref_count w' = 0))
   \<and> (\<not> freed w \<and> reference_run rs w = Some w' \<and> srv_ref_count w \<noteq> 0
        \<and> unat (srv_ref_count w) + length (filter (\<lambda>r. r = Acquire_ref) rs) < 2 ^ 64 \<longrightarrow>
        (freed w' \<longleftrightarrow> srv_ref_count w' = 0))"
proof -
  have a: "mem a = Some w \<and> event_loop (listener w) = Some l \<longrightarrow>
      aws_server_bootstrap_destroy_socket_listener mem (listener_pointer a)
        = Some (AWS_OP_SUCCESS, mem(a \<mapsto> srv_emit (Schedule_listener_destroy_task l a) w))"
  proof (intro impI, elim conjE)
    assume "mem a = Some w" and "event_loop (listener w) = Some l"
    then show "aws_server_bootstrap_destroy_socket_listener mem (listener_pointer a)
        = Some (AWS_OP_SUCCESS, mem(a \<mapsto> srv_emit (Schedule_listener_destroy_task l a) w))"
      by (rule destroy_socket_listener_schedules)
  qed
  have n: "s_server_new_socket_listener alpn connection_options destroy_cb env = Listener p w0 \<longrightarrow>
        AWS_CONTAINER_OF p = listener_args_address env"
  proof
    assume "s_server_new_socket_listener alpn connection_options destroy_cb env = Listener p w0"
    then have "p = listener_pointer (listener_args_address env)"
      by (rule new_socket_listener_pointer)
    then show "AWS_CONTAINER_OF p = listener_args_address env"
      by (simp add: container_of_listener_pointer)
  qed
  have b: "srv_emitted w (s_listener_destroy_task w)
       = [Listener_stop_accept, Listener_clean_up]
         @ (if srv_ref_count w = 1
            then (if destroy_callback w \<noteq> None then [Destroy_callback] else [])
                 @ [Bootstrap_release]
                 @ (if srv_use_tls w then [Tls_options_clean_up] else [])
                 @ [Release_args]
            else [])"
    by (rule srv_emitted_append) (rule listener_destroy_task_trace)
  have r: "srv_ref_count (s_listener_destroy_task w) = srv_ref_count w - 1"
    by simp
  have c: "\<not> freed w \<and> reference_run rs w = Some w' \<longrightarrow>
        filter is_destroy (srv_emitted w w')
          = (if freed w' \<and> destroy_callback w \<noteq> None then [Destroy_callback] else [])
        \<and> (freed w' \<longleftrightarrow> rs \<noteq> [] \<and> last rs \<noteq> Acquire_ref \<and> srv_ref_count w' = 0)"
  proof (intro impI, elim conjE)
    assume live: "\<not> freed w" and run: "reference_run rs w = Some w'"
    from reference_run_destroy_once [OF live run] obtain es where
      once: "srv_trace w' = srv_trace w @ es
             \<and> filter is_destroy es
                 = (if freed w' \<and> destroy_callback w \<noteq> None then [Destroy_callback] else [])
             \<and> (freed w' \<longleftrightarrow> rs \<noteq> [] \<and> last rs \<noteq> Acquire_ref \<and> srv_ref_count w' = 0)" ..
    note t = once [THEN conjunct1]
    note e = once [THEN conjunct2, THEN conjunct1]
    note f = once [THEN conjunct2, THEN conjunct2]
    have em: "srv_emitted w w' = es" using t by (rule srv_emitted_append)
    have "filter is_destroy (srv_emitted w w')
            = (if freed w' \<and> destroy_callback w \<noteq> None then [Destroy_callback] else [])"
      unfolding em by (rule e)
    then show "filter is_destroy (srv_emitted w w')
          = (if freed w' \<and> destroy_callback w \<noteq> None then [Destroy_callback] else [])
        \<and> (freed w' \<longleftrightarrow> rs \<noteq> [] \<and> last rs \<noteq> Acquire_ref \<and> srv_ref_count w' = 0)"
      using f by (rule conjI)
  qed
  have d: "\<not> freed w \<and> reference_run rs w = Some w' \<and> srv_ref_count w \<noteq> 0
        \<and> unat (srv_ref_count w) + length (filter (\<lambda>r. r = Acquire_ref) rs) < 2 ^ 64 \<longrightarrow>
        (freed w' \<longleftrightarrow> srv_ref_count w' = 0)"
  proof (intro impI, elim conjE)
    assume "\<not> freed w" and "reference_run rs w = Some w'" and "srv_ref_count w \<noteq> 0"
      and "unat (srv_ref_count w) + length (filter (\<lambda>r. r = Acquire_ref) rs) < 2 ^ 64"
    then show "freed w' \<longleftrightarrow> srv_ref_count w' = 0"
      by (rule reference_run_no_wrap)
  qed
  show ?thesis
    by (intro conjI a n b r c d)
qed

theorem listener_destruction_witness:
  "one_listener 4096 = Some listening \<and> event_loop (listener listening) = Some 2
   \<and> aws_server_bootstrap_destroy_socket_listener one_listener (listener_pointer 4096)
       = Some (AWS_OP_SUCCESS,
               one_listener(4096 \<mapsto> srv_emit (Schedule_listener_destroy_task 2 4096) listening))
   \<and> (\<exists>w0. s_server_new_socket_listener None None (Some 3) cooperative_listener
              = Listener (listener_pointer 4096) w0)
   \<and> AWS_CONTAINER_OF (listener_pointer 4096) = listener_args_address cooperative_listener
   \<and> srv_emitted listening (s_listener_destroy_task listening)
       = [Listener_stop_accept, Listener_clean_up, Destroy_callback, Bootstrap_release,
          Release_args]
   \<and> srv_ref_count (s_listener_destroy_task listening) = 0
   \<and> \<not> freed listening \<and> srv_ref_count listening \<noteq> 0
   \<and> unat (srv_ref_count listening)
        + length (filter (\<lambda>r. r = Acquire_ref)
                    [Acquire_ref, Run_listener_destroy_task, Release_ref]) < 2 ^ 64
   \<and> reference_run [Acquire_ref, Run_listener_destroy_task, Release_ref] listening
       = Some (s_server_connection_args_release
                 (s_listener_destroy_task (s_server_connection_args_acquire listening)))
   \<and> filter is_destroy
        (srv_emitted listening
           (s_server_connection_args_release
              (s_listener_destroy_task (s_server_connection_args_acquire listening))))
       = [Destroy_callback]
   \<and> freed (s_server_connection_args_release
              (s_listener_destroy_task (s_server_connection_args_acquire listening)))
   \<and> srv_ref_count (s_server_connection_args_release
                       (s_listener_destroy_task (s_server_connection_args_acquire listening)))
       = 0"
proof -
  let ?rs = "[Acquire_ref, Run_listener_destroy_task, Release_ref]"
  let ?w' = "s_server_connection_args_release
               (s_listener_destroy_task (s_server_connection_args_acquire listening))"
  have m: "one_listener 4096 = Some listening"
    by (simp add: one_listener_def)
  have l: "event_loop (listener listening) = Some 2"
    by (simp add: listening_def)
  obtain w0 where n: "s_server_new_socket_listener None None (Some 3) cooperative_listener
                        = Listener (listener_pointer 4096) w0"
    by (simp add: s_server_new_socket_listener_def cooperative_listener_def Let_def)
  have f: "\<not> freed listening"
    by (simp add: listening_def freed_def)
  have nz: "srv_ref_count listening \<noteq> 0"
    by (simp add: listening_def)
  have bd: "unat (srv_ref_count listening) + length (filter (\<lambda>r. r = Acquire_ref) ?rs) < 2 ^ 64"
    by (simp add: listening_def)
  have r: "reference_run ?rs listening = Some ?w'"
    by (simp add: listening_def freed_def srv_acquire_trace listener_destroy_task_trace)
  have z: "srv_ref_count ?w' = 0"
    by (simp add: listening_def)
  note T = listener_destruction [where mem = one_listener and a = 4096 and w = listening
      and l = 2 and alpn = None and connection_options = None and destroy_cb = "Some 3"
      and env = cooperative_listener and p = "listener_pointer 4096" and ?w0.0 = w0
      and rs = ?rs and w' = ?w']
  have c1: "aws_server_bootstrap_destroy_socket_listener one_listener (listener_pointer 4096)
       = Some (AWS_OP_SUCCESS,
               one_listener(4096 \<mapsto> srv_emit (Schedule_listener_destroy_task 2 4096) listening))"
    by (rule mp [OF T [THEN conjunct1] conjI [OF m l]])
  have c2: "AWS_CONTAINER_OF (listener_pointer 4096) = listener_args_address cooperative_listener"
    by (rule mp [OF T [THEN conjunct2, THEN conjunct1] n])
  have c3: "srv_emitted listening (s_listener_destroy_task listening)
       = [Listener_stop_accept, Listener_clean_up, Destroy_callback, Bootstrap_release,
          Release_args]"
    unfolding T [THEN conjunct2, THEN conjunct2, THEN conjunct1]
    by (simp add: listening_def)
  have c4: "srv_ref_count (s_listener_destroy_task listening) = 0"
    unfolding T [THEN conjunct2, THEN conjunct2, THEN conjunct2, THEN conjunct1]
    by (simp add: listening_def)
  have c6: "freed ?w' \<longleftrightarrow> srv_ref_count ?w' = 0"
    by (rule mp [OF T [THEN conjunct2, THEN conjunct2, THEN conjunct2, THEN conjunct2,
                       THEN conjunct2]
                  conjI [OF f conjI [OF r conjI [OF nz bd]]]])
  have fr: "freed ?w'"
    unfolding c6 by (rule z)
  have c5: "filter is_destroy (srv_emitted listening ?w')
              = (if freed ?w' \<and> destroy_callback listening \<noteq> None then [Destroy_callback] else [])"
    by (rule conjunct1 [OF mp [OF T [THEN conjunct2, THEN conjunct2, THEN conjunct2,
                                     THEN conjunct2, THEN conjunct1]
                                conjI [OF f r]]])
  have cb: "destroy_callback listening \<noteq> None"
    by (simp add: listening_def)
  have c5': "filter is_destroy (srv_emitted listening ?w') = [Destroy_callback]"
    unfolding c5 using fr cb by (simp only: if_True simp_thms)
  have ex: "\<exists>w0. s_server_new_socket_listener None None (Some 3) cooperative_listener
              = Listener (listener_pointer 4096) w0"
    using n ..
  show ?thesis
    by (intro conjI) (rule m l c1 ex c2 c3 c4 f nz bd r c5' fr z)+
qed

section \<open>The incoming callback of an accepted connection\<close>

lemma srv_emitted_same [simp]: "srv_emitted w w = []"
  by (simp add: srv_emitted_def)




































section \<open>A client execution without a setup callback\<close>

lemma lost_setup_run:
  "\<not> isl (client_run started lost_setup)"
  "filter is_setup (trace (projr (client_run started lost_setup))) = []"
  "filter is_shutdown (trace (projr (client_run started lost_setup))) = []"
  "connection_chosen (projr (client_run started lost_setup))"
  "\<not> setup_called (projr (client_run started lost_setup))"
  "failed_count (projr (client_run started lost_setup)) = 1"
  "addresses_count (projr (client_run started lost_setup)) = 2"
  "ref_count (projr (client_run started lost_setup)) = 2"
  "scheduled_tasks (trace (projr (client_run started lost_setup))) = [task_one, task_two]"
  by (simp_all add: lost_setup_def run_defs)

text \<open>
  Claim C1 says that after a call of \<^verbatim>\<open>aws_client_bootstrap_new_socket_channel\<close> that
  returns success the setup callback is invoked exactly once. The source says the same
  (\<^verbatim>\<open>/* setup_callback is always called exactly once */\<close>), but the execution
  \<open>lost_setup\<close> ends without any invocation: the call returns success, the resolver
  answers with two addresses, both connection tasks run and both connects succeed, and
  \<^verbatim>\<open>aws_channel_new\<close> returns \<^verbatim>\<open>NULL\<close> for the first. The first handler sets
  \<open>connection_chosen\<close> and counts one failure out of two; the second finds a connection
  chosen, closes its socket and counts nothing. No callback is outstanding afterwards, the
  setup callback was never invoked, and the state keeps two references.
\<close>

theorem client_setup_never_delivered:
  "aws_client_bootstrap_new_socket_channel None ''example.com'' 443 stream_options (Some 1)
     cooperative = (AWS_OP_SUCCESS, Some started)
   \<and> \<not> isl (client_run started lost_setup)
   \<and> scheduled_tasks (trace (projr (client_run started lost_setup))) = [task_one, task_two]
   \<and> filter is_setup (trace (projr (client_run started lost_setup))) = []
   \<and> filter is_shutdown (trace (projr (client_run started lost_setup))) = []
   \<and> \<not> setup_called (projr (client_run started lost_setup))
   \<and> failed_count (projr (client_run started lost_setup)) = 1
   \<and> addresses_count (projr (client_run started lost_setup)) = 2
   \<and> ref_count (projr (client_run started lost_setup)) = 2"
  by (intro conjI started_reached lost_setup_run)

text \<open>
  With a single address the same failure of \<^verbatim>\<open>aws_channel_new\<close> does reach the gate, and
  the setup callback is invoked with the error code 0 of the connect and a null channel.
\<close>

lemma single_address_channel_failure:
  "filter is_setup
     (emitted resolved_one
        (s_on_client_connection_established
           (s_attempt_connection resolved_one task_one AWS_TASK_STATUS_RUN_READY 10
              Socket_connect_started 0)
           10 ''10.0.0.1'' 0 True None))
   = [Setup_callback 0 None]"
  by (simp add: resolved_one_def task_one_def started_def address_one_def every_alloc_ok_def
        stream_options_def new_task_data_def s_on_host_resolved_def s_attempt_connection_def
        attempt_cleanup_task_def s_on_client_connection_established_def client_defs Let_def)

end
